theory Spec2Isabelle
  imports Complex_Main "HOL-Library.Stream"
begin

section \<open>JavaScript values and property access\<close>

text \<open>
  The program handles only JSON-shaped data: the object literals it sends and the parsed
  bodies it receives. An object is the list of its key/value pairs in the order they are
  written; as in a JavaScript object literal and in \<^verbatim>\<open>JSON.parse\<close>, the last pair
  with a given key is the one that counts. Numbers occur only as literals inside payloads
  and are never computed with.
\<close>

datatype js =
    JUndefined
  | JNull
  | JBool bool
  | JNum rat
  | JStr string
  | JArr "js list"
  | JObj "(string \<times> js) list"

text \<open>
  What the program can throw: a rejected \<^verbatim>\<open>fetch\<close>, a rejected
  \<^verbatim>\<open>response.json()\<close>, the \<^verbatim>\<open>TypeError\<close> of reading a property of
  \<^verbatim>\<open>undefined\<close> or \<^verbatim>\<open>null\<close> (or of calling something that is not a function),
  and \<^verbatim>\<open>new Error(msg)\<close>.
\<close>

datatype error = FetchRejected | JsonRejected | TypeError | Error string

definition own :: "(string \<times> js) list \<Rightarrow> string \<Rightarrow> js" where
  "own kvs k = (case map_of (rev kvs) k of None \<Rightarrow> JUndefined | Some v \<Rightarrow> v)"

text \<open>
  \<^verbatim>\<open>v.k\<close> for a data property name \<open>k\<close>. The names the program reads
  (\<^verbatim>\<open>entry\<close>, \<^verbatim>\<open>response\<close>, \<^verbatim>\<open>outcome\<close>, \<^verbatim>\<open>issue\<close>, \<^verbatim>\<open>details\<close>,
  \<^verbatim>\<open>text\<close>, \<^verbatim>\<open>location\<close>, \<^verbatim>\<open>access_token\<close>, \<^verbatim>\<open>result\<close>,
  \<^verbatim>\<open>reference\<close>) are defined by no prototype, so on a string, number, boolean or
  array the read gives \<^verbatim>\<open>undefined\<close>.
\<close>

fun js_get :: "js \<Rightarrow> string \<Rightarrow> error + js" where
  "js_get JUndefined k = Inl TypeError"
| "js_get JNull k = Inl TypeError"
| "js_get (JObj kvs) k = Inr (own kvs k)"
| "js_get v k = Inr JUndefined"

fun digits :: "nat \<Rightarrow> string" where
  "digits n =
     (if n < 10 then [''0123456789'' ! n]
      else digits (n div 10) @ [''0123456789'' ! (n mod 10)])"

declare digits.simps [simp del]

text \<open>
  \<^verbatim>\<open>v[i]\<close> for a literal index \<open>i\<close>: an array element (\<^verbatim>\<open>undefined\<close> past the
  end), the property named by the decimal digits of \<open>i\<close> on an object, a one-character
  string on a string.
\<close>

fun js_index :: "js \<Rightarrow> nat \<Rightarrow> error + js" where
  "js_index JUndefined i = Inl TypeError"
| "js_index JNull i = Inl TypeError"
| "js_index (JArr xs) i = Inr (if i < length xs then xs ! i else JUndefined)"
| "js_index (JObj kvs) i = Inr (own kvs (digits i))"
| "js_index (JStr s) i = Inr (if i < length s then JStr [s ! i] else JUndefined)"
| "js_index v i = Inr JUndefined"

datatype step = Prop string | Idx nat

fun js_step :: "js \<Rightarrow> step \<Rightarrow> error + js" where
  "js_step v (Prop k) = js_get v k"
| "js_step v (Idx i) = js_index v i"

text \<open>A member chain such as \<^verbatim>\<open>data.entry[0].response.location\<close>, read left to right.\<close>

fun js_path :: "js \<Rightarrow> step list \<Rightarrow> error + js" where
  "js_path v [] = Inr v"
| "js_path v (s # ss) = (case js_step v s of Inl e \<Rightarrow> Inl e | Inr v' \<Rightarrow> js_path v' ss)"

section \<open>The outside world\<close>

text \<open>
  \<open>Cat s v\<close> is the string \<^verbatim>\<open>s + v\<close> for a value \<open>v\<close> that need not be a string
  (\<^verbatim>\<open>'Bearer ' + accessToken\<close>); \<open>Json v\<close> is the text \<^verbatim>\<open>JSON.stringify(v)\<close>.
  JavaScript's conversion of a value to text is left uninterpreted.
\<close>

datatype strexp = Str string | Cat string js

datatype payload = NoBody | Form string | Json js

record request =
  req_url :: strexp
  req_method :: string
  req_headers :: "(string \<times> strexp) list"
  req_body :: payload

text \<open>
  Of a response the program reads \<^verbatim>\<open>ok\<close>, prints \<^verbatim>\<open>body\<close> and awaits
  \<^verbatim>\<open>json()\<close>, which resolves to the parsed body or rejects (\<open>None\<close>).
\<close>

record response =
  ok :: bool
  parsed :: "js option"

datatype outcome = Rejects | Resolves response

text \<open>
  A console line: a printed value, the text \<^verbatim>\<open>JSON.stringify(v, undefined, 2)\<close>, or
  the body object of a response.
\<close>

datatype line = Val js | Pretty js | BodyOf response

text \<open>
  The state a run threads through: the global \<^verbatim>\<open>accessToken\<close>, what the network
  will answer to the successive \<^verbatim>\<open>fetch\<close> calls, what \<^verbatim>\<open>randomUUID()\<close> will
  return, the time \<^verbatim>\<open>new Date().toISOString()\<close> reads, the console, and the
  requests sent so far.
\<close>

record world =
  accessToken :: js
  network :: "outcome stream"
  random :: "string stream"
  clock :: string
  console :: "line list"
  sent :: "request list"

type_synonym 'a io = "world \<Rightarrow> (error + 'a) \<times> world"

definition then_io :: "'a io \<Rightarrow> ('a \<Rightarrow> 'b io) \<Rightarrow> 'b io" where
  "then_io m f w = (case m w of (Inl e, w') \<Rightarrow> (Inl e, w') | (Inr a, w') \<Rightarrow> f a w')"

definition throw :: "error \<Rightarrow> 'a io" where
  "throw e w = (Inl e, w)"

definition return_io :: "'a \<Rightarrow> 'a io" where
  "return_io a w = (Inr a, w)"

definition lift :: "error + 'a \<Rightarrow> 'a io" where
  "lift r w = (r, w)"

definition fetch :: "request \<Rightarrow> response io" where
  "fetch req w =
     ((case shd (network w) of Rejects \<Rightarrow> Inl FetchRejected | Resolves r \<Rightarrow> Inr r),
      w\<lparr>network := stl (network w), sent := sent w @ [req]\<rparr>)"

definition json :: "response \<Rightarrow> js io" where
  "json r w = ((case parsed r of None \<Rightarrow> Inl JsonRejected | Some v \<Rightarrow> Inr v), w)"

definition console_log :: "line \<Rightarrow> unit io" where
  "console_log l w = (Inr (), w\<lparr>console := console w @ [l]\<rparr>)"

definition randomUUID :: "string io" where
  "randomUUID w = (Inr (shd (random w)), w\<lparr>random := stl (random w)\<rparr>)"

definition get_accessToken :: "js io" where
  "get_accessToken w = (Inr (accessToken w), w)"

definition set_accessToken :: "js \<Rightarrow> unit io" where
  "set_accessToken v w = (Inr (), w\<lparr>accessToken := v\<rparr>)"

definition toISOString :: "string io" where
  "toISOString w = (Inr (clock w), w)"

text \<open>The program's start: \<^verbatim>\<open>let accessToken = null\<close>, nothing printed, nothing sent.\<close>

definition start :: "outcome list \<Rightarrow> string list \<Rightarrow> world" where
  "start answers ids =
     \<lparr>accessToken = JNull,
      network = answers @- sconst Rejects,
      random = ids @- sconst ''00000000-0000-4000-8000-000000000000'',
      clock = ''2022-01-01T00:00:00.000Z'',
      console = [],
      sent = []\<rparr>"

section \<open>The program (src/unnamed/part\_000)\<close>

definition BASE_URL :: string where
  "BASE_URL = ''https://api.medplum.com/''"

definition MY_CLIENT_ID :: string where
  "MY_CLIENT_ID = ''MY_CLIENT_ID''"

definition MY_CLIENT_SECRET :: string where
  "MY_CLIENT_SECRET = ''MY_CLIENT_SECRET''"

definition token_request :: request where
  "token_request =
     \<lparr>req_url = Str (BASE_URL @ ''oauth2/token''),
      req_method = ''POST'',
      req_headers = [(''Content-Type'', Str ''application/x-www-form-urlencoded'')],
      req_body = Form (''grant_type=client_credentials&client_id='' @ MY_CLIENT_ID
                        @ ''&client_secret='' @ MY_CLIENT_SECRET)\<rparr>"

definition authenticate :: "unit io" where
  "authenticate =
     then_io (console_log (Val (JStr ''Authenticating...''))) (\<lambda>_.
     then_io (fetch token_request) (\<lambda>response.
     if \<not> ok response then
       then_io (console_log (BodyOf response)) (\<lambda>_.
       throw (Error ''Authentication failed.''))
     else
       then_io (json response) (\<lambda>data.
       then_io (lift (js_get data ''access_token'')) (\<lambda>token.
       then_io (set_accessToken token) (\<lambda>_.
       console_log (Val (JStr ''Success!'')))))))"

definition batch_request :: "js \<Rightarrow> js \<Rightarrow> request" where
  "batch_request token content =
     \<lparr>req_url = Str (BASE_URL @ ''fhir/R4/''),
      req_method = ''POST'',
      req_headers = [(''Authorization'', Cat ''Bearer '' token),
                     (''Content-Type'', Str ''application/fhir+json'')],
      req_body = Json content\<rparr>"

definition batch_bundle :: "js list \<Rightarrow> js" where
  "batch_bundle entries =
     JObj [(''resourceType'', JStr ''Bundle''), (''type'', JStr ''batch''),
           (''entry'', JArr entries)]"

subsection \<open>createServiceRequest\<close>

text \<open>
  The Patient entry is the same in the three versions of \<^verbatim>\<open>createServiceRequest\<close> but
  for the \<^verbatim>\<open>system\<close> of the identifier, which is the first argument here.
\<close>

definition patient_entry :: "string \<Rightarrow> string \<Rightarrow> string \<Rightarrow> js" where
  "patient_entry identifierSystem patientUrn exampleMrn =
     JObj [(''fullUrl'', JStr patientUrn),
           (''request'', JObj [(''method'', JStr ''POST''), (''url'', JStr ''Patient''),
                               (''ifNoneExist'', JStr (''identifier='' @ exampleMrn))]),
           (''resource'', JObj [
              (''resourceType'', JStr ''Patient''),
              (''name'', JArr [JObj [(''given'', JArr [JStr ''Batch'']),
                                     (''family'', JStr ''Test'')]]),
              (''birthDate'', JStr ''2020-01-01''),
              (''gender'', JStr ''male''),
              (''identifier'', JArr [JObj [(''system'', JStr identifierSystem),
                                           (''value'', JStr exampleMrn)]])])]"

definition serviceRequest_entry :: "string \<Rightarrow> js" where
  "serviceRequest_entry patientUrn =
     JObj [(''request'', JObj [(''method'', JStr ''POST''), (''url'', JStr ''ServiceRequest'')]),
           (''resource'', JObj [
              (''resourceType'', JStr ''ServiceRequest''),
              (''subject'', JObj [(''reference'', JStr patientUrn)]),
              (''code'', JObj [(''coding'', JArr [JObj [
                  (''system'', JStr ''https://kit.com/tests''),
                  (''code'', JStr ''KIT_SKU'')]])])])]"

definition outcome_text :: "nat \<Rightarrow> step list" where
  "outcome_text i =
     [Prop ''entry'', Idx i, Prop ''response'', Prop ''outcome'', Prop ''issue'', Idx 0,
      Prop ''details'', Prop ''text'']"

definition location :: "nat \<Rightarrow> step list" where
  "location i = [Prop ''entry'', Idx i, Prop ''response'', Prop ''location'']"

text \<open>
  Everything \<^verbatim>\<open>createServiceRequest\<close> does once \<^verbatim>\<open>data\<close> is parsed; the three
  versions of the function share these lines.
\<close>

definition print_and_return :: "js \<Rightarrow> js list io" where
  "print_and_return data =
     then_io (console_log (Pretty data)) (\<lambda>_.
     then_io (lift (js_path data (outcome_text 0))) (\<lambda>t0.
     then_io (console_log (Val t0)) (\<lambda>_.
     then_io (lift (js_path data (location 0))) (\<lambda>l0.
     then_io (console_log (Val l0)) (\<lambda>_.
     then_io (lift (js_path data (outcome_text 1))) (\<lambda>t1.
     then_io (console_log (Val t1)) (\<lambda>_.
     then_io (lift (js_path data (location 1))) (\<lambda>l1.
     then_io (console_log (Val l1)) (\<lambda>_.
     then_io (lift (js_path data (location 0))) (\<lambda>r0.
     then_io (lift (js_path data (location 1))) (\<lambda>r1.
     return_io [r0, r1])))))))))))"

definition createServiceRequest :: "js list io" where
  "createServiceRequest =
     then_io randomUUID (\<lambda>u.
     let patientUrn = ''urn:uuid:'' @ u in
     then_io randomUUID (\<lambda>exampleMrn.
     then_io get_accessToken (\<lambda>token.
     then_io (fetch (batch_request token
               (batch_bundle [patient_entry ''https://example.com/'' patientUrn exampleMrn,
                        serviceRequest_entry patientUrn]))) (\<lambda>response.
     then_io (json response) (\<lambda>data.
     print_and_return data)))))"

subsection \<open>createReport\<close>

definition observation_entry ::
  "string \<Rightarrow> js \<Rightarrow> js \<Rightarrow> string \<Rightarrow> string \<Rightarrow> js" where
  "observation_entry observtionUrn patientId serviceRequestId code display =
     JObj [(''fullUrl'', JStr observtionUrn),
           (''request'', JObj [(''method'', JStr ''POST''), (''url'', JStr ''Observation'')]),
           (''resource'', JObj [
              (''resourceType'', JStr ''Observation''),
              (''basedOn'', JArr [JObj [(''reference'', serviceRequestId)]]),
              (''subject'', JObj [(''reference'', patientId)]),
              (''code'', JObj [(''coding'', JArr [JObj [
                  (''system'', JStr ''https://kit.com/tests''),
                  (''code'', JStr code),
                  (''display'', JStr display)]])]),
              (''valueQuantity'', JObj [
                  (''value'', JNum 100),
                  (''unit'', JStr ''mg/dL''),
                  (''system'', JStr ''http://unitsofmeasure.org''),
                  (''code'', JStr ''mg/dL'')])])]"

definition diagnosticReport_entry :: "js \<Rightarrow> js \<Rightarrow> string \<Rightarrow> string \<Rightarrow> js" where
  "diagnosticReport_entry patientId serviceRequestId observtionUrn1 observtionUrn2 =
     JObj [(''request'', JObj [(''method'', JStr ''POST''),
                               (''url'', JStr ''DiagnosticReport'')]),
           (''resource'', JObj [
              (''resourceType'', JStr ''DiagnosticReport''),
              (''basedOn'', JArr [JObj [(''reference'', serviceRequestId)]]),
              (''subject'', JObj [(''reference'', patientId)]),
              (''code'', JObj [(''coding'', JArr [JObj [
                  (''system'', JStr ''https://kit.com/tests''),
                  (''code'', JStr ''KIT_SKU'')]])]),
              (''result'', JArr [JObj [(''reference'', JStr observtionUrn1)],
                                 JObj [(''reference'', JStr observtionUrn2)]])])]"

definition report_entries :: "js \<Rightarrow> js \<Rightarrow> string \<Rightarrow> string \<Rightarrow> js list" where
  "report_entries patientId serviceRequestId observtionUrn1 observtionUrn2 =
     [observation_entry observtionUrn1 patientId serviceRequestId ''abc'' ''ABC'',
      observation_entry observtionUrn2 patientId serviceRequestId ''xyz'' ''XYZ'',
      diagnosticReport_entry patientId serviceRequestId observtionUrn1 observtionUrn2]"

definition createReport :: "js \<Rightarrow> js \<Rightarrow> js list io" where
  "createReport patientId serviceRequestId =
     then_io randomUUID (\<lambda>u1.
     let observtionUrn1 = ''urn:uuid:'' @ u1 in
     then_io randomUUID (\<lambda>u2.
     let observtionUrn2 = ''urn:uuid:'' @ u2 in
     then_io get_accessToken (\<lambda>token.
     then_io (fetch (batch_request token
               (batch_bundle (report_entries patientId serviceRequestId
                          observtionUrn1 observtionUrn2)))) (\<lambda>response.
     then_io (json response) (\<lambda>data.
     then_io (lift (js_path data (location 2))) (\<lambda>l2.
     return_io [l2]))))))"

subsection \<open>readResults\<close>

definition get_entry :: "js \<Rightarrow> js" where
  "get_entry target = JObj [(''request'', JObj [(''method'', JStr ''GET''), (''url'', target)])]"

definition read_entry :: "js \<Rightarrow> error + js" where
  "read_entry result =
     (case js_get result ''reference'' of
        Inl e \<Rightarrow> Inl e
      | Inr target \<Rightarrow> Inr (get_entry target))"

text \<open>\<^verbatim>\<open>xs.map(f)\<close> for a callback that may throw: left to right, up to the first throw.\<close>

fun array_map :: "(js \<Rightarrow> error + js) \<Rightarrow> js list \<Rightarrow> error + js list" where
  "array_map f [] = Inr []"
| "array_map f (x # xs) =
     (case f x of
        Inl e \<Rightarrow> Inl e
      | Inr y \<Rightarrow> (case array_map f xs of Inl e \<Rightarrow> Inl e | Inr ys \<Rightarrow> Inr (y # ys)))"

text \<open>
  \<^verbatim>\<open>report.result.map(result => ...)\<close>: only an array has a \<^verbatim>\<open>map\<close> to call;
  on anything else the call is a \<^verbatim>\<open>TypeError\<close>.
\<close>

definition read_entries :: "js \<Rightarrow> error + js list" where
  "read_entries report =
     (case js_get report ''result'' of
        Inl e \<Rightarrow> Inl e
      | Inr (JArr xs) \<Rightarrow> array_map read_entry xs
      | Inr _ \<Rightarrow> Inl TypeError)"

definition report_request :: "js \<Rightarrow> js \<Rightarrow> request" where
  "report_request token reportId =
     \<lparr>req_url = Cat (BASE_URL @ ''fhir/R4/'') reportId,
      req_method = ''GET'',
      req_headers = [(''Authorization'', Cat ''Bearer '' token)],
      req_body = NoBody\<rparr>"

definition readResults :: "js \<Rightarrow> unit io" where
  "readResults reportId =
     then_io get_accessToken (\<lambda>token1.
     then_io (fetch (report_request token1 reportId)) (\<lambda>response1.
     then_io (json response1) (\<lambda>report.
     then_io (console_log (Pretty report)) (\<lambda>_.
     then_io get_accessToken (\<lambda>token2.
     then_io (lift (read_entries report)) (\<lambda>entries.
     then_io (fetch (batch_request token2 (batch_bundle entries))) (\<lambda>response2.
     then_io (json response2) (\<lambda>results.
     console_log (Pretty results)))))))))"

subsection \<open>main\<close>

text \<open>\<^verbatim>\<open>const [a, b] = xs\<close>: the elements by position, \<^verbatim>\<open>undefined\<close> past the end.\<close>

definition element :: "js list \<Rightarrow> nat \<Rightarrow> js" where
  "element xs i = (if i < length xs then xs ! i else JUndefined)"

definition main :: "unit io" where
  "main =
     then_io authenticate (\<lambda>_.
     then_io createServiceRequest (\<lambda>ids.
     let patientId = element ids 0; serviceRequestId = element ids 1 in
     then_io (createReport patientId serviceRequestId) (\<lambda>ids'.
     let diagnosticReportId = element ids' 0 in
     readResults diagnosticReportId)))"

section \<open>The programs of src/index.js\<close>

text \<open>
  The file holds two more versions of the program. Both have the
  \<^verbatim>\<open>authenticate\<close> above, word for word. The first (lines 1 to 154) stops after
  \<^verbatim>\<open>createServiceRequest\<close>; the second (lines 156 to 642) has a five-entry
  \<^verbatim>\<open>createReport\<close> and the \<^verbatim>\<open>readResults\<close> above. Their ServiceRequest entry
  differs from one to the other only in the \<^verbatim>\<open>system\<close> of the order detail.
\<close>

definition serviceRequest_entry_idx :: "string \<Rightarrow> string \<Rightarrow> js" where
  "serviceRequest_entry_idx detailSystem patientUrn =
     JObj [(''request'', JObj [(''method'', JStr ''POST''), (''url'', JStr ''ServiceRequest'')]),
           (''resource'', JObj [
              (''resourceType'', JStr ''ServiceRequest''),
              (''subject'', JObj [(''reference'', JStr patientUrn)]),
              (''code'', JObj [(''coding'', JArr [JObj [
                  (''system'', JStr ''https://example.com/availableskus''),
                  (''code'', JStr ''DEVICE_SKU'')]])]),
              (''orderDetail'', JArr [JObj [
                  (''text'', JStr ''CUSTOMER_ORDERED''),
                  (''coding'', JArr [JObj [
                      (''system'', JStr detailSystem),
                      (''code'', JStr ''PRE_DISPATCH'')]])]])])]"

definition createServiceRequest_idx1 :: "js list io" where
  "createServiceRequest_idx1 =
     then_io randomUUID (\<lambda>u.
     let patientUrn = ''urn:uuid:'' @ u in
     then_io randomUUID (\<lambda>exampleMrn.
     then_io get_accessToken (\<lambda>token.
     then_io (fetch (batch_request token
               (batch_bundle
                  [patient_entry ''https://example.com/deidentified'' patientUrn exampleMrn,
                   serviceRequest_entry_idx ''https://example.com/logisticssummary''
                     patientUrn]))) (\<lambda>response.
     then_io (json response) (\<lambda>data.
     print_and_return data)))))"

definition main_idx1 :: "unit io" where
  "main_idx1 =
     then_io authenticate (\<lambda>_.
     then_io createServiceRequest_idx1 (\<lambda>ids.
     return_io ()))"

definition createServiceRequest_idx2 :: "js list io" where
  "createServiceRequest_idx2 =
     then_io randomUUID (\<lambda>u.
     let patientUrn = ''urn:uuid:'' @ u in
     then_io randomUUID (\<lambda>exampleMrn.
     then_io get_accessToken (\<lambda>token.
     then_io (fetch (batch_request token
               (batch_bundle
                  [patient_entry ''https://gohumanfirst.com/deidentified'' patientUrn exampleMrn,
                   serviceRequest_entry_idx ''https://gohumanfirst.com/logisticssummary''
                     patientUrn]))) (\<lambda>response.
     then_io (json response) (\<lambda>data.
     print_and_return data)))))"

definition organization_entry :: "string \<Rightarrow> string \<Rightarrow> js" where
  "organization_entry labUrn labClia =
     JObj [(''fullUrl'', JStr labUrn),
           (''request'', JObj [(''method'', JStr ''POST''), (''url'', JStr ''Organizaiton''),
                               (''ifNoneExist'', JStr (''identifier='' @ labClia))]),
           (''resource'', JObj [
              (''resourceType'', JStr ''Organization''),
              (''identifier'', JArr [JObj [
                  (''system'', JStr ''urn:oid:2.16.840.1.113883.4.7''),
                  (''value'', JStr labClia)]]),
              (''name'', JStr ''Example Lab''),
              (''telecom'', JArr [JObj [
                  (''system'', JStr ''phone''),
                  (''use'', JStr ''work''),
                  (''value'', JStr ''14158864975'')]]),
              (''address'', JArr [JObj [
                  (''use'', JStr ''work''),
                  (''type'', JStr ''both''),
                  (''line'', JArr [JStr ''953 Indiana St'']),
                  (''city'', JStr ''San Francisco''),
                  (''state'', JStr ''CA''),
                  (''postalCode'', JStr ''94107'')]])])]"

definition practitioner_entry :: "string \<Rightarrow> string \<Rightarrow> js" where
  "practitioner_entry practitionerUrn practitionerNpi =
     JObj [(''fullUrl'', JStr practitionerUrn),
           (''request'', JObj [(''method'', JStr ''POST''), (''url'', JStr ''Practitioner''),
                               (''ifNoneExist'', JStr (''identifier='' @ practitionerNpi))]),
           (''resource'', JObj [
              (''resourceType'', JStr ''Practitioner''),
              (''identifier'', JArr [JObj [
                  (''type'', JObj [(''coding'', JArr [JObj [
                      (''system'', JStr ''http://terminology.hl7.org/CodeSystem/v2-0203''),
                      (''code'', JStr ''NPI'')]])]),
                  (''system'', JStr ''http://hl7.org/fhir/sid/us-npi''),
                  (''value'', JStr practitionerNpi)]]),
              (''name'', JArr [JObj [
                  (''use'', JStr ''official''),
                  (''prefix'', JArr [JStr ''Dr.'']),
                  (''given'', JArr [JStr ''Example'']),
                  (''family'', JStr ''Practitioner'')]]),
              (''telecom'', JArr [
                  JObj [(''system'', JStr ''email''), (''use'', JStr ''work''),
                        (''value'', JStr ''practitioner@example.com'')],
                  JObj [(''system'', JStr ''phone''), (''use'', JStr ''work''),
                        (''value'', JStr ''555-555-5555'')],
                  JObj [(''system'', JStr ''fax''), (''use'', JStr ''work''),
                        (''value'', JStr ''555-555-5555'')]]),
              (''address'', JArr [JObj [
                  (''use'', JStr ''work''),
                  (''type'', JStr ''both''),
                  (''line'', JArr [JStr ''123 Happy Lane'']),
                  (''city'', JStr ''Springfield''),
                  (''state'', JStr ''OR''),
                  (''postalCode'', JStr ''90000'')]])])]"

definition specimen_entry :: "string \<Rightarrow> js \<Rightarrow> js \<Rightarrow> string \<Rightarrow> js" where
  "specimen_entry specimenUrn patientId serviceRequestId collectedDateTime =
     JObj [(''fullUrl'', JStr specimenUrn),
           (''request'', JObj [(''method'', JStr ''POST''), (''url'', JStr ''Specimen'')]),
           (''resource'', JObj [
              (''resourceType'', JStr ''Specimen''),
              (''status'', JStr ''available''),
              (''request'', JArr [JObj [(''reference'', serviceRequestId)]]),
              (''subject'', JObj [(''reference'', patientId)]),
              (''collection'', JObj [(''collectedDateTime'', JStr collectedDateTime)]),
              (''type'', JObj [(''coding'', JArr [JObj [
                  (''system'', JStr ''http://snomed.info/sct''),
                  (''code'', JStr ''122554006''),
                  (''display'', JStr ''Capillary blood specimen'')]])])])]"

definition observation_entry_idx :: "string \<Rightarrow> js \<Rightarrow> js \<Rightarrow> string \<Rightarrow> js" where
  "observation_entry_idx observtionUrn patientId serviceRequestId specimenUrn =
     JObj [(''fullUrl'', JStr observtionUrn),
           (''request'', JObj [(''method'', JStr ''POST''), (''url'', JStr ''Observation'')]),
           (''resource'', JObj [
              (''resourceType'', JStr ''Observation''),
              (''status'', JStr ''final''),
              (''basedOn'', JArr [JObj [(''reference'', serviceRequestId)]]),
              (''subject'', JObj [(''reference'', patientId)]),
              (''specimen'', JObj [(''reference'', JStr specimenUrn)]),
              (''code'', JObj [
                  (''coding'', JArr [JObj [(''system'', JStr ''https://kit.com''),
                                           (''code'', JStr ''TESTOSTERONE'')]]),
                  (''text'', JStr ''TESTOSTERONE'')]),
              (''category'', JArr [JObj [(''coding'', JArr [JObj [
                  (''system'', JStr ''https://kit.com/observationCategory''),
                  (''code'', JStr ''Reproductive'')]])]]),
              (''valueQuantity'', JObj [
                  (''value'', JNum 10),
                  (''unit'', JStr ''ng/mL''),
                  (''system'', JStr ''http://unitsofmeasure.org'')]),
              (''interpretation'', JArr [JObj [(''coding'', JArr [JObj [
                  (''system'', JStr
                     ''http://terminology.hl7.org/CodeSystem/v3-ObservationInterpretation''),
                  (''code'', JStr ''H''),
                  (''display'', JStr ''High'')]])]]),
              (''referenceRange'', JArr [JObj [
                  (''low'', JObj [(''value'', JNum (249 / 100)),
                                  (''unit'', JStr ''ng/mL''),
                                  (''system'', JStr ''http://unitsofmeasure.org'')]),
                  (''high'', JObj [(''value'', JNum (836 / 100)),
                                   (''unit'', JStr ''ng/mL''),
                                   (''system'', JStr ''http://unitsofmeasure.org'')])]])])]"

definition diagnosticReport_entry_idx ::
  "js \<Rightarrow> js \<Rightarrow> string \<Rightarrow> string \<Rightarrow> string \<Rightarrow> js" where
  "diagnosticReport_entry_idx patientId serviceRequestId specimenUrn practitionerUrn
       observtionUrn =
     JObj [(''request'', JObj [(''method'', JStr ''POST''),
                               (''url'', JStr ''DiagnosticReport'')]),
           (''resource'', JObj [
              (''resourceType'', JStr ''DiagnosticReport''),
              (''identifier'', JArr [
                  JObj [(''system'', JStr ''https://example.com/orderNumber''),
                        (''value'', JStr ''30000000'')],
                  JObj [(''system'', JStr ''https://example.com/barcodeId''),
                        (''value'', JStr ''1000000'')]]),
              (''basedOn'', JArr [JObj [(''reference'', serviceRequestId)]]),
              (''subject'', JObj [(''reference'', patientId)]),
              (''specimen'', JArr [JObj [(''reference'', JStr specimenUrn)]]),
              (''code'', JObj [(''coding'', JArr [JObj [
                  (''system'', JStr ''https://kit.com/kitType''),
                  (''code'', JStr ''t_health''),
                  (''display'', JStr ''t_health'')]])]),
              (''resultsInterpreter'', JArr [JObj [(''reference'', JStr practitionerUrn)]]),
              (''result'', JArr [JObj [(''reference'', JStr observtionUrn)]])])]"

definition report_entries_idx ::
  "js \<Rightarrow> js \<Rightarrow> string \<Rightarrow> string \<Rightarrow> string \<Rightarrow> string \<Rightarrow> string \<Rightarrow> js list" where
  "report_entries_idx patientId serviceRequestId labUrn practitionerUrn specimenUrn
       observtionUrn collectedDateTime =
     [organization_entry labUrn ''123456789'',
      practitioner_entry practitionerUrn ''999999999'',
      specimen_entry specimenUrn patientId serviceRequestId collectedDateTime,
      observation_entry_idx observtionUrn patientId serviceRequestId specimenUrn,
      diagnosticReport_entry_idx patientId serviceRequestId specimenUrn practitionerUrn
        observtionUrn]"

definition createReport_idx :: "js \<Rightarrow> js \<Rightarrow> js list io" where
  "createReport_idx patientId serviceRequestId =
     then_io randomUUID (\<lambda>u1.
     let labUrn = ''urn:uuid:'' @ u1 in
     then_io randomUUID (\<lambda>u2.
     let practitionerUrn = ''urn:uuid:'' @ u2 in
     then_io randomUUID (\<lambda>u3.
     let specimenUrn = ''urn:uuid:'' @ u3 in
     then_io randomUUID (\<lambda>u4.
     let observtionUrn = ''urn:uuid:'' @ u4 in
     then_io get_accessToken (\<lambda>token.
     then_io toISOString (\<lambda>now.
     then_io (fetch (batch_request token
               (batch_bundle (report_entries_idx patientId serviceRequestId labUrn
                                practitionerUrn specimenUrn observtionUrn now)))) (\<lambda>response.
     then_io (json response) (\<lambda>data.
     then_io (lift (js_path data (location 4))) (\<lambda>l4.
     return_io [l4])))))))))"

definition main_idx2 :: "unit io" where
  "main_idx2 =
     then_io authenticate (\<lambda>_.
     then_io createServiceRequest_idx2 (\<lambda>ids.
     let patientId = element ids 0; serviceRequestId = element ids 1 in
     then_io (createReport_idx patientId serviceRequestId) (\<lambda>ids'.
     let diagnosticReportId = element ids' 0 in
     readResults diagnosticReportId)))"

section \<open>What the statements observe\<close>

text \<open>
  Projections used to state the properties: fields of a response entry and of a request
  entry, the number of entries of a batch, the failures of a round trip, the local
  identifiers and the read targets of a batch.
\<close>

definition response_text :: "js \<Rightarrow> error + js" where
  "response_text e =
     js_path e [Prop ''response'', Prop ''outcome'', Prop ''issue'', Idx 0, Prop ''details'',
                Prop ''text'']"

definition response_location :: "js \<Rightarrow> error + js" where
  "response_location e = js_path e [Prop ''response'', Prop ''location'']"

definition entry_count :: "js \<Rightarrow> nat option" where
  "entry_count v = (case js_get v ''entry'' of Inr (JArr es) \<Rightarrow> Some (length es) | _ \<Rightarrow> None)"

definition response_count :: "outcome \<Rightarrow> nat option" where
  "response_count out =
     (case out of
        Rejects \<Rightarrow> None
      | Resolves r \<Rightarrow> (case parsed r of None \<Rightarrow> None | Some data \<Rightarrow> entry_count data))"

definition request_counts :: "world \<Rightarrow> nat option list" where
  "request_counts w =
     map (\<lambda>req. case req_body req of Json b \<Rightarrow> entry_count b | _ \<Rightarrow> None) (sent w)"

definition reference_of :: "js \<Rightarrow> js" where
  "reference_of x = (case js_get x ''reference'' of Inl e \<Rightarrow> JUndefined | Inr target \<Rightarrow> target)"

definition resource_type :: "js \<Rightarrow> error + js" where
  "resource_type e = js_path e [Prop ''resource'', Prop ''resourceType'']"

definition request_url :: "js \<Rightarrow> error + js" where
  "request_url e = js_path e [Prop ''request'', Prop ''url'']"

definition transport_error :: "outcome \<Rightarrow> error option" where
  "transport_error out =
     (case out of
        Rejects \<Rightarrow> Some FetchRejected
      | Resolves r \<Rightarrow> (case parsed r of None \<Rightarrow> Some JsonRejected | Some data \<Rightarrow> None))"

definition full_url :: "js \<Rightarrow> js" where
  "full_url e = (case js_get e ''fullUrl'' of Inl x \<Rightarrow> JUndefined | Inr u \<Rightarrow> u)"

definition local_ids :: "js list \<Rightarrow> js list" where
  "local_ids es = filter (\<lambda>u. u \<noteq> JUndefined) (map full_url es)"

definition request_field :: "string \<Rightarrow> js \<Rightarrow> js" where
  "request_field k e =
     (case js_path e [Prop ''request'', Prop k] of Inl x \<Rightarrow> JUndefined | Inr v \<Rightarrow> v)"

definition read_targets :: "js list \<Rightarrow> js list" where
  "read_targets es =
     map (request_field ''url'') (filter (\<lambda>e. request_field ''method'' e = JStr ''GET'') es)"

definition batch_entries :: "request \<Rightarrow> js list" where
  "batch_entries req =
     (case req_body req of
        Json b \<Rightarrow> (case js_get b ''entry'' of Inr (JArr es) \<Rightarrow> es | _ \<Rightarrow> [])
      | _ \<Rightarrow> [])"

definition reads_apart :: "request \<Rightarrow> bool" where
  "reads_apart req =
     (set (read_targets (batch_entries req)) \<inter> set (local_ids (batch_entries req)) = {})"

definition sends :: "(request \<Rightarrow> bool) \<Rightarrow> 'a io \<Rightarrow> bool" where
  "sends P m = (\<forall>w. \<exists>rs. sent (snd (m w)) = sent w @ rs \<and> list_all P rs)"

section \<open>Example answers of the server\<close>

definition answered :: "string \<Rightarrow> string \<Rightarrow> js" where
  "answered detail loc =
     JObj [(''response'', JObj [
        (''outcome'', JObj [(''resourceType'', JStr ''OperationOutcome''),
           (''issue'', JArr [JObj [(''details'', JObj [(''text'', JStr detail)])]])]),
        (''status'', JStr ''201''),
        (''location'', JStr loc)])]"

definition batch_response :: "js list \<Rightarrow> outcome" where
  "batch_response es =
     Resolves \<lparr>ok = True,
       parsed = Some (JObj [(''resourceType'', JStr ''Bundle''),
                            (''type'', JStr ''batch-response''), (''entry'', JArr es)])\<rparr>"

definition granted :: outcome where
  "granted = Resolves \<lparr>ok = True,
     parsed = Some (JObj [(''token_type'', JStr ''Bearer''), (''access_token'', JStr ''t0k3n'')])\<rparr>"

definition order_response :: outcome where
  "order_response =
     batch_response [answered ''Created'' ''Patient/1'', answered ''Created'' ''ServiceRequest/2'']"

definition report_response :: outcome where
  "report_response =
     batch_response [answered ''Created'' ''Observation/3'', answered ''Created'' ''Observation/4'',
                     answered ''Created'' ''DiagnosticReport/5'']"

definition report_response_idx :: outcome where
  "report_response_idx =
     batch_response [answered ''OK'' ''Organization/6'', answered ''OK'' ''Practitioner/7'',
                     answered ''Created'' ''Specimen/8'', answered ''Created'' ''Observation/9'',
                     answered ''Created'' ''DiagnosticReport/10'']"

definition surplus_response :: outcome where
  "surplus_response =
     batch_response [answered ''Created'' ''Patient/1'',
                     answered ''Created'' ''ServiceRequest/2'',
                     answered ''Created'' ''Observation/3'']"

definition short_response :: outcome where
  "short_response = batch_response [answered ''Created'' ''Patient/1'']"

definition unparseable :: outcome where
  "unparseable = Resolves \<lparr>ok = True, parsed = None\<rparr>"

definition report_Z :: js where
  "report_Z =
     JObj [(''resourceType'', JStr ''DiagnosticReport''), (''id'', JStr ''Z''),
           (''result'', JArr [JObj [(''reference'', JStr ''Observation/A'')],
                              JObj [(''reference'', JStr ''Observation/B'')]])]"

definition observations_response :: outcome where
  "observations_response =
     batch_response
       [JObj [(''resource'', JObj [(''resourceType'', JStr ''Observation''), (''id'', JStr ''A'')])],
        JObj [(''resource'', JObj [(''resourceType'', JStr ''Observation''), (''id'', JStr ''B'')])]]"

definition full_run :: world where
  "full_run =
     start [granted, order_response, report_response,
            Resolves \<lparr>ok = True, parsed = Some report_Z\<rparr>, observations_response]
           [''u1'', ''u2'', ''u3'', ''u4'']"

section \<open>What each function does, case by case\<close>

lemmas example_defs = start_def granted_def order_response_def report_response_def
  report_response_idx_def batch_response_def answered_def own_def

lemma js_get_error: "js_get v k = Inl e \<Longrightarrow> e = TypeError"
  by (cases v) auto

lemma js_index_error: "js_index v i = Inl e \<Longrightarrow> e = TypeError"
  by (cases v) auto

lemma js_path_error: "js_path v ss = Inl e \<Longrightarrow> e = TypeError"
proof (induction ss arbitrary: v)
  case Nil
  then show ?case by simp
next
  case (Cons s ss)
  then show ?case
    by (cases s) (auto split: sum.splits dest: js_get_error js_index_error)
qed

lemma print_and_return_result:
  "fst (print_and_return data w) =
     (case js_path data (outcome_text 0) of Inl e \<Rightarrow> Inl e | Inr t0 \<Rightarrow>
      case js_path data (location 0) of Inl e \<Rightarrow> Inl e | Inr l0 \<Rightarrow>
      case js_path data (outcome_text 1) of Inl e \<Rightarrow> Inl e | Inr t1 \<Rightarrow>
      case js_path data (location 1) of Inl e \<Rightarrow> Inl e | Inr l1 \<Rightarrow> Inr [l0, l1])"
  by (simp add: print_and_return_def then_io_def console_log_def lift_def return_io_def
      split: sum.splits)

lemma print_and_return_frame:
  "accessToken (snd (print_and_return data w)) = accessToken w
   \<and> network (snd (print_and_return data w)) = network w
   \<and> random (snd (print_and_return data w)) = random w
   \<and> clock (snd (print_and_return data w)) = clock w
   \<and> sent (snd (print_and_return data w)) = sent w
   \<and> (\<exists>ls. console (snd (print_and_return data w)) = console w @ Pretty data # ls)"
  by (simp add: print_and_return_def then_io_def console_log_def lift_def return_io_def
      split: sum.splits)

lemma authenticate_cases:
  "authenticate w =
     (let w1 = w\<lparr>console := console w @ [Val (JStr ''Authenticating...'')],
                 network := stl (network w), sent := sent w @ [token_request]\<rparr>
      in case shd (network w) of
           Rejects \<Rightarrow> (Inl FetchRejected, w1)
         | Resolves r \<Rightarrow>
             if \<not> ok r then
               (Inl (Error ''Authentication failed.''), w1\<lparr>console := console w1 @ [BodyOf r]\<rparr>)
             else (case parsed r of
                     None \<Rightarrow> (Inl JsonRejected, w1)
                   | Some data \<Rightarrow>
                       (case js_get data ''access_token'' of
                          Inl e \<Rightarrow> (Inl e, w1)
                        | Inr token \<Rightarrow>
                            (Inr (), w1\<lparr>accessToken := token,
                                        console := console w1 @ [Val (JStr ''Success!'')]\<rparr>))))"
  by (simp add: authenticate_def then_io_def console_log_def fetch_def json_def lift_def
      throw_def set_accessToken_def Let_def split: outcome.splits option.splits sum.splits)

lemma createServiceRequest_cases:
  "createServiceRequest w =
     (let patientUrn = ''urn:uuid:'' @ shd (random w);
          exampleMrn = shd (stl (random w));
          w1 = w\<lparr>random := stl (stl (random w)), network := stl (network w),
                 sent := sent w @ [batch_request (accessToken w)
                   (batch_bundle [patient_entry ''https://example.com/'' patientUrn exampleMrn,
                                  serviceRequest_entry patientUrn])]\<rparr>
      in case shd (network w) of
           Rejects \<Rightarrow> (Inl FetchRejected, w1)
         | Resolves r \<Rightarrow>
             (case parsed r of
                None \<Rightarrow> (Inl JsonRejected, w1)
              | Some data \<Rightarrow> print_and_return data w1))"
  by (simp add: createServiceRequest_def then_io_def randomUUID_def get_accessToken_def
      fetch_def json_def Let_def split: outcome.splits option.splits)

lemma createReport_cases:
  "createReport patientId serviceRequestId w =
     (let observtionUrn1 = ''urn:uuid:'' @ shd (random w);
          observtionUrn2 = ''urn:uuid:'' @ shd (stl (random w));
          w1 = w\<lparr>random := stl (stl (random w)), network := stl (network w),
                 sent := sent w @ [batch_request (accessToken w)
                   (batch_bundle (report_entries patientId serviceRequestId
                                    observtionUrn1 observtionUrn2))]\<rparr>
      in case shd (network w) of
           Rejects \<Rightarrow> (Inl FetchRejected, w1)
         | Resolves r \<Rightarrow>
             (case parsed r of
                None \<Rightarrow> (Inl JsonRejected, w1)
              | Some data \<Rightarrow>
                  (case js_path data (location 2) of
                     Inl e \<Rightarrow> (Inl e, w1)
                   | Inr l2 \<Rightarrow> (Inr [l2], w1))))"
  by (simp add: createReport_def then_io_def randomUUID_def get_accessToken_def
      fetch_def json_def lift_def return_io_def Let_def
      split: outcome.splits option.splits sum.splits)

lemma createReport_idx_cases:
  "createReport_idx patientId serviceRequestId w =
     (let labUrn = ''urn:uuid:'' @ shd (random w);
          practitionerUrn = ''urn:uuid:'' @ shd (stl (random w));
          specimenUrn = ''urn:uuid:'' @ shd (stl (stl (random w)));
          observtionUrn = ''urn:uuid:'' @ shd (stl (stl (stl (random w))));
          w1 = w\<lparr>random := stl (stl (stl (stl (random w)))), network := stl (network w),
                 sent := sent w @ [batch_request (accessToken w)
                   (batch_bundle (report_entries_idx patientId serviceRequestId labUrn
                                    practitionerUrn specimenUrn observtionUrn (clock w)))]\<rparr>
      in case shd (network w) of
           Rejects \<Rightarrow> (Inl FetchRejected, w1)
         | Resolves r \<Rightarrow>
             (case parsed r of
                None \<Rightarrow> (Inl JsonRejected, w1)
              | Some data \<Rightarrow>
                  (case js_path data (location 4) of
                     Inl e \<Rightarrow> (Inl e, w1)
                   | Inr l4 \<Rightarrow> (Inr [l4], w1))))"
  by (simp add: createReport_idx_def then_io_def randomUUID_def get_accessToken_def
      toISOString_def fetch_def json_def lift_def return_io_def Let_def
      split: outcome.splits option.splits sum.splits)

lemma readResults_cases:
  "readResults reportId w =
     (let w1 = w\<lparr>network := stl (network w),
                 sent := sent w @ [report_request (accessToken w) reportId]\<rparr>
      in case shd (network w) of
           Rejects \<Rightarrow> (Inl FetchRejected, w1)
         | Resolves r1 \<Rightarrow>
             (case parsed r1 of
                None \<Rightarrow> (Inl JsonRejected, w1)
              | Some report \<Rightarrow>
                  (let w2 = w1\<lparr>console := console w @ [Pretty report]\<rparr> in
                   case read_entries report of
                     Inl e \<Rightarrow> (Inl e, w2)
                   | Inr entries \<Rightarrow>
                       (let w3 = w2\<lparr>network := stl (stl (network w)),
                                   sent := sent w @ [report_request (accessToken w) reportId,
                                     batch_request (accessToken w) (batch_bundle entries)]\<rparr>
                        in case shd (stl (network w)) of
                             Rejects \<Rightarrow> (Inl FetchRejected, w3)
                           | Resolves r2 \<Rightarrow>
                               (case parsed r2 of
                                  None \<Rightarrow> (Inl JsonRejected, w3)
                                | Some results \<Rightarrow>
                                    (Inr (), w3\<lparr>console := console w @
                                       [Pretty report, Pretty results]\<rparr>))))))"
  by (simp add: readResults_def then_io_def get_accessToken_def console_log_def
      fetch_def json_def lift_def Let_def
      split: outcome.splits option.splits sum.splits)

lemma main_cases:
  "main w =
     (case authenticate w of
        (Inl e, w1) \<Rightarrow> (Inl e, w1)
      | (Inr u, w1) \<Rightarrow>
          (case createServiceRequest w1 of
             (Inl e, w2) \<Rightarrow> (Inl e, w2)
           | (Inr ids, w2) \<Rightarrow>
               (case createReport (element ids 0) (element ids 1) w2 of
                  (Inl e, w3) \<Rightarrow> (Inl e, w3)
                | (Inr ids', w3) \<Rightarrow> readResults (element ids' 0) w3)))"
  by (simp add: main_def then_io_def Let_def split: prod.splits sum.splits)

lemma path_entry:
  "js_get data ''entry'' = Inr (JArr es) \<Longrightarrow>
   js_path data (Prop ''entry'' # Idx i # ss) =
     (if i < length es then js_path (es ! i) ss else js_path JUndefined ss)"
  by simp

lemma location_entry:
  "js_get data ''entry'' = Inr (JArr es) \<Longrightarrow>
   js_path data (location i) = (if i < length es then response_location (es ! i) else Inl TypeError)"
  by (simp add: location_def response_location_def)

lemma outcome_text_entry:
  "js_get data ''entry'' = Inr (JArr es) \<Longrightarrow>
   js_path data (outcome_text i) = (if i < length es then response_text (es ! i) else Inl TypeError)"
  by (simp add: outcome_text_def response_text_def)

lemma response_location_error: "response_location e = Inl x \<Longrightarrow> x = TypeError"
  unfolding response_location_def by (rule js_path_error)

lemma response_text_error: "response_text e = Inl x \<Longrightarrow> x = TypeError"
  unfolding response_text_def by (rule js_path_error)

lemma resource_types:
  "resource_type (patient_entry sys u m) = Inr (JStr ''Patient'')"
  "resource_type (serviceRequest_entry u) = Inr (JStr ''ServiceRequest'')"
  "resource_type (serviceRequest_entry_idx d u) = Inr (JStr ''ServiceRequest'')"
  "resource_type (observation_entry u p s c dd) = Inr (JStr ''Observation'')"
  "resource_type (diagnosticReport_entry p s u1 u2) = Inr (JStr ''DiagnosticReport'')"
  "resource_type (organization_entry l c) = Inr (JStr ''Organization'')"
  "resource_type (practitioner_entry pu n) = Inr (JStr ''Practitioner'')"
  "resource_type (specimen_entry su p s t) = Inr (JStr ''Specimen'')"
  "resource_type (observation_entry_idx u p s su) = Inr (JStr ''Observation'')"
  "resource_type (diagnosticReport_entry_idx p s su pu u) = Inr (JStr ''DiagnosticReport'')"
  by (simp_all add: resource_type_def own_def patient_entry_def serviceRequest_entry_def
      serviceRequest_entry_idx_def observation_entry_def diagnosticReport_entry_def
      organization_entry_def practitioner_entry_def specimen_entry_def
      observation_entry_idx_def diagnosticReport_entry_idx_def)

lemma request_urls:
  "request_url (patient_entry sys u m) = Inr (JStr ''Patient'')"
  "request_url (serviceRequest_entry u) = Inr (JStr ''ServiceRequest'')"
  "request_url (serviceRequest_entry_idx d u) = Inr (JStr ''ServiceRequest'')"
  "request_url (observation_entry u p s c dd) = Inr (JStr ''Observation'')"
  "request_url (diagnosticReport_entry p s u1 u2) = Inr (JStr ''DiagnosticReport'')"
  "request_url (organization_entry l c) = Inr (JStr ''Organizaiton'')"
  "request_url (practitioner_entry pu n) = Inr (JStr ''Practitioner'')"
  "request_url (specimen_entry su p s t) = Inr (JStr ''Specimen'')"
  "request_url (observation_entry_idx u p s su) = Inr (JStr ''Observation'')"
  "request_url (diagnosticReport_entry_idx p s su pu u) = Inr (JStr ''DiagnosticReport'')"
  by (simp_all add: request_url_def own_def patient_entry_def serviceRequest_entry_def
      serviceRequest_entry_idx_def observation_entry_def diagnosticReport_entry_def
      organization_entry_def practitioner_entry_def specimen_entry_def
      observation_entry_idx_def diagnosticReport_entry_idx_def)

lemma createServiceRequest_sent:
  "sent (snd (createServiceRequest w)) =
     sent w @ [batch_request (accessToken w)
       (batch_bundle [patient_entry ''https://example.com/'' (''urn:uuid:'' @ shd (random w))
                        (shd (stl (random w))),
                      serviceRequest_entry (''urn:uuid:'' @ shd (random w))])]"
  by (simp add: createServiceRequest_cases Let_def print_and_return_frame
      split: outcome.splits option.splits)

lemma createReport_sent:
  "sent (snd (createReport p s w)) =
     sent w @ [batch_request (accessToken w)
       (batch_bundle (report_entries p s (''urn:uuid:'' @ shd (random w))
                        (''urn:uuid:'' @ shd (stl (random w)))))]"
  by (simp add: createReport_cases Let_def split: outcome.splits option.splits sum.splits)

lemma createReport_idx_sent:
  "sent (snd (createReport_idx p s w)) =
     sent w @ [batch_request (accessToken w)
       (batch_bundle (report_entries_idx p s (''urn:uuid:'' @ shd (random w))
                        (''urn:uuid:'' @ shd (stl (random w)))
                        (''urn:uuid:'' @ shd (stl (stl (random w))))
                        (''urn:uuid:'' @ shd (stl (stl (stl (random w))))) (clock w)))]"
  by (simp add: createReport_idx_cases Let_def split: outcome.splits option.splits sum.splits)

lemma authenticate_sent: "sent (snd (authenticate w)) = sent w @ [token_request]"
  by (simp add: authenticate_cases Let_def split: outcome.splits option.splits sum.splits)

lemma readResults_sent:
  "\<exists>rs. sent (snd (readResults reportId w)) = sent w @ report_request (accessToken w) reportId # rs
     \<and> (rs = [] \<or> (\<exists>es. rs = [batch_request (accessToken w) (batch_bundle es)]))"
  by (auto simp: readResults_cases Let_def split: outcome.splits option.splits sum.splits)

lemma request_methods [simp]:
  "req_method token_request = ''POST''"
  "req_method (batch_request t b) = ''POST''"
  "req_method (report_request t i) = ''GET''"
  by (simp_all add: token_request_def batch_request_def report_request_def)

lemma token_request_distinct [simp]:
  "token_request \<noteq> batch_request t b" "token_request \<noteq> report_request t i"
  by (simp_all add: token_request_def batch_request_def report_request_def BASE_URL_def)

lemma read_entry_defined:
  "x \<noteq> JNull \<Longrightarrow> x \<noteq> JUndefined \<Longrightarrow> read_entry x = Inr (get_entry (reference_of x))"
  by (cases x) (simp_all add: read_entry_def reference_of_def)

lemma array_map_read_entry:
  "JNull \<notin> set rs \<Longrightarrow> JUndefined \<notin> set rs \<Longrightarrow>
   array_map read_entry rs = Inr (map (\<lambda>x. get_entry (reference_of x)) rs)"
  by (induction rs) (auto simp: read_entry_defined)

subsection \<open>The requests a computation sends\<close>

lemma sends_then_io:
  assumes "sends P m" and "\<And>a. sends P (f a)"
  shows "sends P (then_io m f)"
  unfolding sends_def
proof
  fix w
  obtain rs where rs: "sent (snd (m w)) = sent w @ rs" "list_all P rs"
    using assms(1) unfolding sends_def by blast
  show "\<exists>rs. sent (snd (then_io m f w)) = sent w @ rs \<and> list_all P rs"
  proof (cases "m w")
    case (Pair x w')
    show ?thesis
    proof (cases x)
      case (Inl e)
      with Pair rs show ?thesis by (auto simp: then_io_def)
    next
      case (Inr a)
      obtain rs' where rs': "sent (snd (f a w')) = sent w' @ rs'" "list_all P rs'"
        using assms(2) [of a] unfolding sends_def by blast
      with Pair Inr rs show ?thesis by (auto simp: then_io_def)
    qed
  qed
qed

lemma sends_lift_then:
  assumes "\<And>a. r = Inr a \<Longrightarrow> sends P (f a)"
  shows "sends P (then_io (lift r) f)"
proof (cases r)
  case (Inl e)
  then show ?thesis by (simp add: sends_def then_io_def lift_def)
next
  case (Inr a)
  then show ?thesis using assms [of a] by (simp add: sends_def then_io_def lift_def)
qed

lemma sends_silent:
  "sends P (console_log l)" "sends P (lift r)" "sends P (return_io a)" "sends P (throw e)"
  "sends P randomUUID" "sends P get_accessToken" "sends P (set_accessToken v)"
  "sends P toISOString" "sends P (json resp)"
  by (simp_all add: sends_def console_log_def lift_def return_io_def throw_def randomUUID_def
      get_accessToken_def set_accessToken_def toISOString_def json_def)

lemma sends_fetch: "P req \<Longrightarrow> sends P (fetch req)"
  by (simp add: sends_def fetch_def)

lemma batch_entries_simps [simp]:
  "batch_entries token_request = []"
  "batch_entries (report_request t i) = []"
  "batch_entries (batch_request t (batch_bundle es)) = es"
  by (simp_all add: batch_entries_def token_request_def report_request_def batch_request_def
      batch_bundle_def own_def)

lemma request_methods_post:
  "request_field ''method'' (patient_entry sys u m) = JStr ''POST''"
  "request_field ''method'' (serviceRequest_entry u) = JStr ''POST''"
  "request_field ''method'' (serviceRequest_entry_idx d u) = JStr ''POST''"
  "request_field ''method'' (observation_entry u p s c dd) = JStr ''POST''"
  "request_field ''method'' (diagnosticReport_entry p s u1 u2) = JStr ''POST''"
  "request_field ''method'' (organization_entry l c) = JStr ''POST''"
  "request_field ''method'' (practitioner_entry pu n) = JStr ''POST''"
  "request_field ''method'' (specimen_entry su p s t) = JStr ''POST''"
  "request_field ''method'' (observation_entry_idx u p s su) = JStr ''POST''"
  "request_field ''method'' (diagnosticReport_entry_idx p s su pu u) = JStr ''POST''"
  by (simp_all add: request_field_def own_def patient_entry_def serviceRequest_entry_def
      serviceRequest_entry_idx_def observation_entry_def diagnosticReport_entry_def
      organization_entry_def practitioner_entry_def specimen_entry_def
      observation_entry_idx_def diagnosticReport_entry_idx_def)

lemma get_entry_fields [simp]:
  "request_field ''method'' (get_entry u) = JStr ''GET''"
  "request_field ''url'' (get_entry u) = u"
  "full_url (get_entry u) = JUndefined"
  by (simp_all add: request_field_def full_url_def get_entry_def own_def)

lemma array_map_read_entry_shape:
  "array_map read_entry rs = Inr es \<Longrightarrow> es = map (\<lambda>x. get_entry (reference_of x)) rs"
proof (induction rs arbitrary: es)
  case Nil
  then show ?case by simp
next
  case (Cons x rs)
  then show ?case
    by (auto simp: read_entry_def reference_of_def split: sum.splits)
qed

lemma read_entries_shape:
  "read_entries report = Inr es \<Longrightarrow>
   \<exists>rs. js_get report ''result'' = Inr (JArr rs) \<and> es = map (\<lambda>x. get_entry (reference_of x)) rs"
  by (auto simp: read_entries_def split: sum.splits js.splits dest: array_map_read_entry_shape)

lemma read_batch_ids:
  "local_ids (map (\<lambda>x. get_entry (reference_of x)) rs) = []"
  "read_targets (map (\<lambda>x. get_entry (reference_of x)) rs) = map reference_of rs"
  by (induction rs) (simp_all add: local_ids_def read_targets_def)

lemma reads_apart_requests:
  "reads_apart token_request"
  "reads_apart (report_request t i)"
  "reads_apart (batch_request t (batch_bundle [patient_entry sys u m, serviceRequest_entry u]))"
  "reads_apart (batch_request t
     (batch_bundle [patient_entry sys u m, serviceRequest_entry_idx d u]))"
  "reads_apart (batch_request t (batch_bundle (report_entries p s u1 u2)))"
  "reads_apart (batch_request t (batch_bundle (report_entries_idx p s l pu su ou now)))"
  "read_entries report = Inr es \<Longrightarrow> reads_apart (batch_request t (batch_bundle es))"
  by (auto simp: reads_apart_def read_targets_def request_methods_post report_entries_def
      report_entries_idx_def read_batch_ids dest!: read_entries_shape)

lemma sends_authenticate: "sends reads_apart authenticate"
  unfolding authenticate_def
  by (intro sends_then_io sends_fetch sends_silent reads_apart_requests)
     (auto intro!: sends_then_io sends_silent)

lemma sends_print_and_return: "sends P (print_and_return data)"
  unfolding print_and_return_def
  by (intro sends_then_io sends_silent)

lemma sends_createServiceRequest:
  "sends reads_apart createServiceRequest"
  "sends reads_apart createServiceRequest_idx1"
  "sends reads_apart createServiceRequest_idx2"
  unfolding createServiceRequest_def createServiceRequest_idx1_def
    createServiceRequest_idx2_def Let_def
  by (intro sends_then_io sends_fetch sends_silent sends_print_and_return
      reads_apart_requests)+

lemma sends_createReport:
  "sends reads_apart (createReport p s)"
  "sends reads_apart (createReport_idx p s)"
  unfolding createReport_def createReport_idx_def Let_def
  by (intro sends_then_io sends_fetch sends_silent reads_apart_requests)+

lemma sends_readResults: "sends reads_apart (readResults i)"
  unfolding readResults_def
  by (intro sends_then_io sends_lift_then sends_fetch sends_silent reads_apart_requests)

lemma sends_main:
  "sends reads_apart main" "sends reads_apart main_idx1" "sends reads_apart main_idx2"
  unfolding main_def main_idx1_def main_idx2_def Let_def
  by (intro sends_then_io sends_authenticate sends_createServiceRequest sends_createReport
      sends_readResults sends_silent)+

lemma full_urls:
  "full_url (patient_entry sys u m) = JStr u"
  "full_url (serviceRequest_entry u) = JUndefined"
  "full_url (serviceRequest_entry_idx d u) = JUndefined"
  "full_url (observation_entry u p s c dd) = JStr u"
  "full_url (diagnosticReport_entry p s u1 u2) = JUndefined"
  "full_url (organization_entry l c) = JStr l"
  "full_url (practitioner_entry pu n) = JStr pu"
  "full_url (specimen_entry su p s t) = JStr su"
  "full_url (observation_entry_idx u p s su) = JStr u"
  "full_url (diagnosticReport_entry_idx p s su pu u) = JUndefined"
  by (simp_all add: full_url_def own_def patient_entry_def serviceRequest_entry_def
      serviceRequest_entry_idx_def observation_entry_def diagnosticReport_entry_def
      organization_entry_def practitioner_entry_def specimen_entry_def
      observation_entry_idx_def diagnosticReport_entry_idx_def)

lemma createServiceRequest_wire:
  "\<exists>es. sent (snd (createServiceRequest w))
           = sent w @ [batch_request (accessToken w) (batch_bundle es)]
     \<and> batch_entries (batch_request (accessToken w) (batch_bundle es)) = es
     \<and> map resource_type es = [Inr (JStr ''Patient''), Inr (JStr ''ServiceRequest'')]
     \<and> map full_url es = [JStr (''urn:uuid:'' @ shd (random w)), JUndefined]"
  by (subst createServiceRequest_sent, rule exI, rule conjI, rule refl)
     (simp add: resource_types full_urls)

lemma createReport_wire:
  "\<exists>es. sent (snd (createReport p s w))
           = sent w @ [batch_request (accessToken w) (batch_bundle es)]
     \<and> batch_entries (batch_request (accessToken w) (batch_bundle es)) = es
     \<and> map resource_type es = [Inr (JStr ''Observation''), Inr (JStr ''Observation''),
                                 Inr (JStr ''DiagnosticReport'')]
     \<and> map full_url es = [JStr (''urn:uuid:'' @ shd (random w)),
                            JStr (''urn:uuid:'' @ shd (stl (random w))), JUndefined]"
  by (subst createReport_sent, rule exI, rule conjI, rule refl)
     (simp add: report_entries_def resource_types full_urls)

lemma createReport_idx_wire:
  "\<exists>es. sent (snd (createReport_idx p s w))
           = sent w @ [batch_request (accessToken w) (batch_bundle es)]
     \<and> batch_entries (batch_request (accessToken w) (batch_bundle es)) = es
     \<and> map resource_type es = [Inr (JStr ''Organization''), Inr (JStr ''Practitioner''),
          Inr (JStr ''Specimen''), Inr (JStr ''Observation''),
          Inr (JStr ''DiagnosticReport'')]
     \<and> map full_url es = [JStr (''urn:uuid:'' @ shd (random w)),
          JStr (''urn:uuid:'' @ shd (stl (random w))),
          JStr (''urn:uuid:'' @ shd (stl (stl (random w)))),
          JStr (''urn:uuid:'' @ shd (stl (stl (stl (random w))))), JUndefined]"
  by (subst createReport_idx_sent, rule exI, rule conjI, rule refl)
     (simp add: report_entries_idx_def resource_types full_urls)

lemma full_run_main:
  "map req_method (sent (snd (main full_run))) = [''POST'', ''POST'', ''POST'', ''GET'', ''POST'']
   \<and> fst (main full_run) = Inr ()"
  by (simp add: main_cases authenticate_cases createServiceRequest_cases createReport_cases
      readResults_cases print_and_return_def then_io_def console_log_def lift_def return_io_def
      Let_def element_def
      location_def outcome_text_def full_run_def example_defs report_Z_def
      read_entries_def read_entry_def observations_response_def
      split: prod.splits)

section \<open>The claims\<close>

subsection \<open>C1: the number of response entries\<close>

text \<open>
  Claim C1, as amended. \<^verbatim>\<open>createServiceRequest\<close> and \<^verbatim>\<open>createReport\<close> never compare
  the number of entries of the response with the number of entries of the request. When the
  \<^verbatim>\<open>entry\<close> field of the parsed response is an array \<open>es\<close>:
  \<^verbatim>\<open>createServiceRequest\<close> throws a \<^verbatim>\<open>TypeError\<close> when \<open>es\<close> has fewer than two
  entries, and otherwise its outcome is decided by \<open>es ! 0\<close> and \<open>es ! 1\<close> alone;
  \<^verbatim>\<open>createReport\<close> throws a \<^verbatim>\<open>TypeError\<close> when \<open>es\<close> has fewer than three
  entries (five in src/index.js), and otherwise its outcome is decided by \<open>es ! 2\<close>
  (\<open>es ! 4\<close>) alone. Entries past those are ignored.
\<close>

theorem response_entries_not_counted:
  assumes "shd (network w) = Resolves r" and "parsed r = Some data"
    and "js_get data ''entry'' = Inr (JArr es)"
  shows "fst (createServiceRequest w) =
           (if length es < 2 then Inl TypeError
            else case response_text (es ! 0) of Inl e \<Rightarrow> Inl e | Inr t0 \<Rightarrow>
                 case response_location (es ! 0) of Inl e \<Rightarrow> Inl e | Inr l0 \<Rightarrow>
                 case response_text (es ! 1) of Inl e \<Rightarrow> Inl e | Inr t1 \<Rightarrow>
                 case response_location (es ! 1) of Inl e \<Rightarrow> Inl e | Inr l1 \<Rightarrow> Inr [l0, l1])
       \<and> fst (createReport p s w) =
           (if length es < 3 then Inl TypeError
            else case response_location (es ! 2) of Inl e \<Rightarrow> Inl e | Inr l2 \<Rightarrow> Inr [l2])
       \<and> fst (createReport_idx p s w) =
           (if length es < 5 then Inl TypeError
            else case response_location (es ! 4) of Inl e \<Rightarrow> Inl e | Inr l4 \<Rightarrow> Inr [l4])"
proof (intro conjI)
  show "fst (createReport p s w) =
           (if length es < 3 then Inl TypeError
            else case response_location (es ! 2) of Inl e \<Rightarrow> Inl e | Inr l2 \<Rightarrow> Inr [l2])"
    using assms by (simp add: createReport_cases Let_def location_entry split: sum.splits)
  show "fst (createReport_idx p s w) =
           (if length es < 5 then Inl TypeError
            else case response_location (es ! 4) of Inl e \<Rightarrow> Inl e | Inr l4 \<Rightarrow> Inr [l4])"
    using assms by (simp add: createReport_idx_cases Let_def location_entry split: sum.splits)
  show "fst (createServiceRequest w) =
           (if length es < 2 then Inl TypeError
            else case response_text (es ! 0) of Inl e \<Rightarrow> Inl e | Inr t0 \<Rightarrow>
                 case response_location (es ! 0) of Inl e \<Rightarrow> Inl e | Inr l0 \<Rightarrow>
                 case response_text (es ! 1) of Inl e \<Rightarrow> Inl e | Inr t1 \<Rightarrow>
                 case response_location (es ! 1) of Inl e \<Rightarrow> Inl e | Inr l1 \<Rightarrow> Inr [l0, l1])"
  proof -
    have "fst (createServiceRequest w) = fst (print_and_return data
            (snd (createServiceRequest w)\<lparr>console := console w\<rparr>))"
      using assms by (simp add: createServiceRequest_cases Let_def print_and_return_result)
    then show ?thesis
      using assms
      by (auto simp: print_and_return_result location_entry outcome_text_entry
          split: sum.splits dest: response_location_error response_text_error)
  qed
qed

text \<open>
  A response with one entry where two, three or five were asked for: each function throws a
  \<^verbatim>\<open>TypeError\<close>.
\<close>

theorem response_entries_not_counted_witness:
  "fst (createServiceRequest (start [short_response] [''u1'', ''u2''])) = Inl TypeError
   \<and> fst (createReport (JStr ''Patient/1'') (JStr ''ServiceRequest/2'')
            (start [short_response] [''u1'', ''u2''])) = Inl TypeError
   \<and> fst (createReport_idx (JStr ''Patient/1'') (JStr ''ServiceRequest/2'')
            (start [short_response] [''u1'', ''u2''])) = Inl TypeError"
  using response_entries_not_counted
    [of "start [short_response] [''u1'', ''u2'']"
        "\<lparr>ok = True,
          parsed = Some (JObj [(''resourceType'', JStr ''Bundle''),
                               (''type'', JStr ''batch-response''),
                               (''entry'', JArr [answered ''Created'' ''Patient/1''])])\<rparr>"
        "JObj [(''resourceType'', JStr ''Bundle''), (''type'', JStr ''batch-response''),
               (''entry'', JArr [answered ''Created'' ''Patient/1''])]"
        "[answered ''Created'' ''Patient/1'']"
        "JStr ''Patient/1''" "JStr ''ServiceRequest/2''"]
  by (simp add: start_def short_response_def batch_response_def own_def)

text \<open>
  Claim C1 as stated fails: \<^verbatim>\<open>createServiceRequest\<close> sends two entries, receives
  three, and returns the first two locations without failing.
\<close>

theorem surplus_entries_accepted:
  "fst (createServiceRequest (start [surplus_response] [''u1'', ''u2'']))
     = Inr [JStr ''Patient/1'', JStr ''ServiceRequest/2'']
   \<and> response_count surplus_response = Some 3
   \<and> request_counts (snd (createServiceRequest (start [surplus_response] [''u1'', ''u2''])))
       = [Some 2]"
proof (intro conjI)
  show "fst (createServiceRequest (start [surplus_response] [''u1'', ''u2'']))
     = Inr [JStr ''Patient/1'', JStr ''ServiceRequest/2'']"
    by (simp add: createServiceRequest_cases Let_def start_def surplus_response_def
        batch_response_def print_and_return_result location_def outcome_text_def
        answered_def own_def)
  show "response_count surplus_response = Some 3"
    by (simp add: response_count_def surplus_response_def batch_response_def
        entry_count_def own_def)
  show "request_counts (snd (createServiceRequest (start [surplus_response] [''u1'', ''u2''])))
       = [Some 2]"
    by (simp add: request_counts_def createServiceRequest_sent start_def batch_request_def
        batch_bundle_def entry_count_def own_def)
qed

subsection \<open>C2: the read-back batch\<close>

text \<open>
  Claim C2. When the report read by \<^verbatim>\<open>readResults\<close> has the array \<open>rs\<close> as its
  \<^verbatim>\<open>result\<close> (no element \<^verbatim>\<open>null\<close>), the batch built and sent is the element-wise
  image of \<open>rs\<close>: the entries of the body of the second request, as read back from that
  body, are one entry per element of \<open>rs\<close>, in the same order, each with the method
  \<^verbatim>\<open>GET\<close> and with the element's \<^verbatim>\<open>reference\<close> as its url. For the references
  Observation/A and Observation/B these are exactly two \<^verbatim>\<open>GET\<close> entries, for
  Observation/A and then Observation/B.
\<close>

theorem read_back_batch:
  assumes "shd (network w) = Resolves r1" and "parsed r1 = Some report"
    and "js_get report ''result'' = Inr (JArr rs)"
    and "JNull \<notin> set rs" and "JUndefined \<notin> set rs"
  shows "read_entries report = Inr (map (\<lambda>x. get_entry (reference_of x)) rs)
     \<and> sent (snd (readResults reportId w)) =
         sent w @ [report_request (accessToken w) reportId,
                   batch_request (accessToken w)
                     (batch_bundle (map (\<lambda>x. get_entry (reference_of x)) rs))]
     \<and> map batch_entries (sent (snd (readResults reportId w))) =
         map batch_entries (sent w) @ [[], map (\<lambda>x. get_entry (reference_of x)) rs]
     \<and> map (request_field ''method'') (batch_entries (last (sent (snd (readResults reportId w)))))
         = map (\<lambda>x. JStr ''GET'') rs
     \<and> map (request_field ''url'') (batch_entries (last (sent (snd (readResults reportId w)))))
         = map reference_of rs
     \<and> map req_method (sent (snd (readResults reportId w)))
         = map req_method (sent w) @ [''GET'', ''POST'']"
proof -
  have e: "read_entries report = Inr (map (\<lambda>x. get_entry (reference_of x)) rs)"
    using assms by (simp add: read_entries_def array_map_read_entry)
  have s: "sent (snd (readResults reportId w)) =
         sent w @ [report_request (accessToken w) reportId,
                   batch_request (accessToken w)
                     (batch_bundle (map (\<lambda>x. get_entry (reference_of x)) rs))]"
    using assms(1,2) e
    by (simp add: readResults_cases Let_def split: outcome.splits option.splits)
  show ?thesis
    unfolding s using e by (simp add: comp_def)
qed

text \<open>
  The report of scenario C, with result references Observation/A and Observation/B: the
  body sent holds two entries, \<^verbatim>\<open>GET\<close> Observation/A and \<^verbatim>\<open>GET\<close> Observation/B.
\<close>

theorem read_back_batch_witness:
  "read_entries report_Z =
     Inr [JObj [(''request'', JObj [(''method'', JStr ''GET''), (''url'', JStr ''Observation/A'')])],
          JObj [(''request'', JObj [(''method'', JStr ''GET''), (''url'', JStr ''Observation/B'')])]]
   \<and> map batch_entries (sent (snd (readResults (JStr ''DiagnosticReport/Z'')
        (start [Resolves \<lparr>ok = True, parsed = Some report_Z\<rparr>] [])))) =
      [[],
       [JObj [(''request'', JObj [(''method'', JStr ''GET''), (''url'', JStr ''Observation/A'')])],
        JObj [(''request'', JObj [(''method'', JStr ''GET''), (''url'', JStr ''Observation/B'')])]]]
   \<and> map (request_field ''method'') (batch_entries (last (sent (snd (readResults
        (JStr ''DiagnosticReport/Z'')
        (start [Resolves \<lparr>ok = True, parsed = Some report_Z\<rparr>] []))))))
       = [JStr ''GET'', JStr ''GET'']
   \<and> map (request_field ''url'') (batch_entries (last (sent (snd (readResults
        (JStr ''DiagnosticReport/Z'')
        (start [Resolves \<lparr>ok = True, parsed = Some report_Z\<rparr>] []))))))
       = [JStr ''Observation/A'', JStr ''Observation/B'']
   \<and> map req_method (sent (snd (readResults (JStr ''DiagnosticReport/Z'')
        (start [Resolves \<lparr>ok = True, parsed = Some report_Z\<rparr>] [])))) = [''GET'', ''POST'']"
proof -
  let ?w = "start [Resolves \<lparr>ok = True, parsed = Some report_Z\<rparr>] []"
  let ?rs = "[JObj [(''reference'', JStr ''Observation/A'')],
              JObj [(''reference'', JStr ''Observation/B'')]]"
  have h1: "shd (network ?w) = Resolves \<lparr>ok = True, parsed = Some report_Z\<rparr>"
    by (simp add: start_def)
  have h2: "parsed \<lparr>ok = True, parsed = Some report_Z\<rparr> = Some report_Z"
    by simp
  have h3: "js_get report_Z ''result'' = Inr (JArr ?rs)"
    by (simp add: report_Z_def own_def)
  have h4: "JNull \<notin> set ?rs" and h5: "JUndefined \<notin> set ?rs"
    by simp_all
  have g: "map (\<lambda>x. get_entry (reference_of x)) ?rs =
      [JObj [(''request'', JObj [(''method'', JStr ''GET''), (''url'', JStr ''Observation/A'')])],
       JObj [(''request'', JObj [(''method'', JStr ''GET''), (''url'', JStr ''Observation/B'')])]]"
    "map reference_of ?rs = [JStr ''Observation/A'', JStr ''Observation/B'']"
    by (simp_all add: get_entry_def reference_of_def own_def)
  have s: "sent ?w = []"
    by (simp add: start_def)
  note c = read_back_batch [of ?w _ report_Z ?rs "JStr ''DiagnosticReport/Z''",
      OF h1 h2 h3 h4 h5, unfolded g s]
  have w3: "map batch_entries (sent (snd (readResults (JStr ''DiagnosticReport/Z'') ?w))) =
      [[],
       [JObj [(''request'', JObj [(''method'', JStr ''GET''), (''url'', JStr ''Observation/A'')])],
        JObj [(''request'', JObj [(''method'', JStr ''GET''), (''url'', JStr ''Observation/B'')])]]]"
    using c [THEN conjunct2, THEN conjunct2, THEN conjunct1] by simp
  have w4: "map (request_field ''method'')
        (batch_entries (last (sent (snd (readResults (JStr ''DiagnosticReport/Z'') ?w)))))
      = [JStr ''GET'', JStr ''GET'']"
    using c [THEN conjunct2, THEN conjunct2, THEN conjunct2, THEN conjunct1] by simp
  have w6: "map req_method (sent (snd (readResults (JStr ''DiagnosticReport/Z'') ?w)))
      = [''GET'', ''POST'']"
    using c [THEN conjunct2, THEN conjunct2, THEN conjunct2, THEN conjunct2, THEN conjunct2]
    by simp
  show ?thesis
    by (intro conjI c [THEN conjunct1] w3 w4 w6
        c [THEN conjunct2, THEN conjunct2, THEN conjunct2, THEN conjunct2, THEN conjunct1])
qed

subsection \<open>C3: results are read at the position of their request\<close>

text \<open>
  Claim C3. Each batch goes out with its entries in the order written, and what a function
  returns is read from the response at the positions of the creates it is about. The
  entries \<open>es\<close> below are the ones read back from the body of the request sent.
  \<^verbatim>\<open>createServiceRequest\<close> sends [Patient, ServiceRequest], the Patient under the first
  UUID drawn, and returns the locations at indices 0 and 1; \<^verbatim>\<open>createReport\<close> sends
  [Observation, Observation, DiagnosticReport], the Observations under the first and the
  second UUID drawn, and returns the location at index 2, where the DiagnosticReport create
  stands; the \<^verbatim>\<open>createReport\<close> of src/index.js sends five entries with the
  DiagnosticReport create at index 4 and returns the location at index 4.
\<close>

theorem results_read_by_request_position:
  "(fst (createServiceRequest w) = Inr ids \<longrightarrow>
      (\<exists>r data es. shd (network w) = Resolves r \<and> parsed r = Some data
         \<and> sent (snd (createServiceRequest w))
             = sent w @ [batch_request (accessToken w) (batch_bundle es)]
         \<and> batch_entries (batch_request (accessToken w) (batch_bundle es)) = es
         \<and> map resource_type es = [Inr (JStr ''Patient''), Inr (JStr ''ServiceRequest'')]
         \<and> map full_url es = [JStr (''urn:uuid:'' @ shd (random w)), JUndefined]
         \<and> [js_path data (location 0), js_path data (location 1)] = map Inr ids))
   \<and> (fst (createReport p s w) = Inr ids \<longrightarrow>
      (\<exists>r data es. shd (network w) = Resolves r \<and> parsed r = Some data
         \<and> sent (snd (createReport p s w))
             = sent w @ [batch_request (accessToken w) (batch_bundle es)]
         \<and> batch_entries (batch_request (accessToken w) (batch_bundle es)) = es
         \<and> map resource_type es = [Inr (JStr ''Observation''), Inr (JStr ''Observation''),
                                     Inr (JStr ''DiagnosticReport'')]
         \<and> map full_url es = [JStr (''urn:uuid:'' @ shd (random w)),
                                JStr (''urn:uuid:'' @ shd (stl (random w))), JUndefined]
         \<and> [js_path data (location 2)] = map Inr ids))
   \<and> (fst (createReport_idx p s w) = Inr ids \<longrightarrow>
      (\<exists>r data es. shd (network w) = Resolves r \<and> parsed r = Some data
         \<and> sent (snd (createReport_idx p s w))
             = sent w @ [batch_request (accessToken w) (batch_bundle es)]
         \<and> batch_entries (batch_request (accessToken w) (batch_bundle es)) = es
         \<and> map resource_type es = [Inr (JStr ''Organization''), Inr (JStr ''Practitioner''),
              Inr (JStr ''Specimen''), Inr (JStr ''Observation''),
              Inr (JStr ''DiagnosticReport'')]
         \<and> map full_url es = [JStr (''urn:uuid:'' @ shd (random w)),
              JStr (''urn:uuid:'' @ shd (stl (random w))),
              JStr (''urn:uuid:'' @ shd (stl (stl (random w)))),
              JStr (''urn:uuid:'' @ shd (stl (stl (stl (random w))))), JUndefined]
         \<and> [js_path data (location 4)] = map Inr ids))"
proof (intro conjI impI)
  assume a: "fst (createServiceRequest w) = Inr ids"
  then obtain r data where r: "shd (network w) = Resolves r" "parsed r = Some data"
    by (auto simp: createServiceRequest_cases Let_def split: outcome.splits option.splits)
  then have "fst (print_and_return data
       (snd (createServiceRequest w)\<lparr>console := console w\<rparr>)) = Inr ids"
    using a by (simp add: createServiceRequest_cases Let_def print_and_return_result)
  then have l: "[js_path data (location 0), js_path data (location 1)] = map Inr ids"
    by (auto simp: print_and_return_result split: sum.splits)
  obtain es where "sent (snd (createServiceRequest w))
             = sent w @ [batch_request (accessToken w) (batch_bundle es)]"
      and "batch_entries (batch_request (accessToken w) (batch_bundle es)) = es"
      and "map resource_type es = [Inr (JStr ''Patient''), Inr (JStr ''ServiceRequest'')]"
      and "map full_url es = [JStr (''urn:uuid:'' @ shd (random w)), JUndefined]"
    using createServiceRequest_wire [of w] by (elim exE conjE)
  with r l show "\<exists>r data es. shd (network w) = Resolves r \<and> parsed r = Some data
         \<and> sent (snd (createServiceRequest w))
             = sent w @ [batch_request (accessToken w) (batch_bundle es)]
         \<and> batch_entries (batch_request (accessToken w) (batch_bundle es)) = es
         \<and> map resource_type es = [Inr (JStr ''Patient''), Inr (JStr ''ServiceRequest'')]
         \<and> map full_url es = [JStr (''urn:uuid:'' @ shd (random w)), JUndefined]
         \<and> [js_path data (location 0), js_path data (location 1)] = map Inr ids"
    by (intro exI [of _ r] exI [of _ data] exI [of _ es] conjI)
next
  assume a: "fst (createReport p s w) = Inr ids"
  then obtain r data where r: "shd (network w) = Resolves r" "parsed r = Some data"
    by (auto simp: createReport_cases Let_def split: outcome.splits option.splits)
  then have l: "[js_path data (location 2)] = map Inr ids"
    using a by (auto simp: createReport_cases Let_def split: sum.splits)
  obtain es where "sent (snd (createReport p s w))
             = sent w @ [batch_request (accessToken w) (batch_bundle es)]"
      and "batch_entries (batch_request (accessToken w) (batch_bundle es)) = es"
      and "map resource_type es = [Inr (JStr ''Observation''), Inr (JStr ''Observation''),
                                     Inr (JStr ''DiagnosticReport'')]"
      and "map full_url es = [JStr (''urn:uuid:'' @ shd (random w)),
                                JStr (''urn:uuid:'' @ shd (stl (random w))), JUndefined]"
    using createReport_wire [of p s w] by (elim exE conjE)
  with r l show "\<exists>r data es. shd (network w) = Resolves r \<and> parsed r = Some data
         \<and> sent (snd (createReport p s w))
             = sent w @ [batch_request (accessToken w) (batch_bundle es)]
         \<and> batch_entries (batch_request (accessToken w) (batch_bundle es)) = es
         \<and> map resource_type es = [Inr (JStr ''Observation''), Inr (JStr ''Observation''),
                                     Inr (JStr ''DiagnosticReport'')]
         \<and> map full_url es = [JStr (''urn:uuid:'' @ shd (random w)),
                                JStr (''urn:uuid:'' @ shd (stl (random w))), JUndefined]
         \<and> [js_path data (location 2)] = map Inr ids"
    by (intro exI [of _ r] exI [of _ data] exI [of _ es] conjI)
next
  assume a: "fst (createReport_idx p s w) = Inr ids"
  then obtain r data where r: "shd (network w) = Resolves r" "parsed r = Some data"
    by (auto simp: createReport_idx_cases Let_def split: outcome.splits option.splits)
  then have l: "[js_path data (location 4)] = map Inr ids"
    using a by (auto simp: createReport_idx_cases Let_def split: sum.splits)
  obtain es where "sent (snd (createReport_idx p s w))
             = sent w @ [batch_request (accessToken w) (batch_bundle es)]"
      and "batch_entries (batch_request (accessToken w) (batch_bundle es)) = es"
      and "map resource_type es = [Inr (JStr ''Organization''), Inr (JStr ''Practitioner''),
              Inr (JStr ''Specimen''), Inr (JStr ''Observation''),
              Inr (JStr ''DiagnosticReport'')]"
      and "map full_url es = [JStr (''urn:uuid:'' @ shd (random w)),
              JStr (''urn:uuid:'' @ shd (stl (random w))),
              JStr (''urn:uuid:'' @ shd (stl (stl (random w)))),
              JStr (''urn:uuid:'' @ shd (stl (stl (stl (random w))))), JUndefined]"
    using createReport_idx_wire [of p s w] by (elim exE conjE)
  with r l show "\<exists>r data es. shd (network w) = Resolves r \<and> parsed r = Some data
         \<and> sent (snd (createReport_idx p s w))
             = sent w @ [batch_request (accessToken w) (batch_bundle es)]
         \<and> batch_entries (batch_request (accessToken w) (batch_bundle es)) = es
         \<and> map resource_type es = [Inr (JStr ''Organization''), Inr (JStr ''Practitioner''),
              Inr (JStr ''Specimen''), Inr (JStr ''Observation''),
              Inr (JStr ''DiagnosticReport'')]
         \<and> map full_url es = [JStr (''urn:uuid:'' @ shd (random w)),
              JStr (''urn:uuid:'' @ shd (stl (random w))),
              JStr (''urn:uuid:'' @ shd (stl (stl (random w)))),
              JStr (''urn:uuid:'' @ shd (stl (stl (stl (random w))))), JUndefined]
         \<and> [js_path data (location 4)] = map Inr ids"
    by (intro exI [of _ r] exI [of _ data] exI [of _ es] conjI)
qed

text \<open>
  Three runs in which the server answers every entry: the resource types and the local
  identifiers of the entries sent, in order, and the locations returned.
\<close>

theorem results_read_by_request_position_witness:
  "fst (createServiceRequest (start [order_response] [''u1'', ''u2'']))
     = Inr [JStr ''Patient/1'', JStr ''ServiceRequest/2'']
   \<and> map (\<lambda>req. map resource_type (batch_entries req))
         (sent (snd (createServiceRequest (start [order_response] [''u1'', ''u2'']))))
       = [[Inr (JStr ''Patient''), Inr (JStr ''ServiceRequest'')]]
   \<and> map (\<lambda>req. map full_url (batch_entries req))
         (sent (snd (createServiceRequest (start [order_response] [''u1'', ''u2'']))))
       = [[JStr ''urn:uuid:u1'', JUndefined]]
   \<and> fst (createReport (JStr ''Patient/1'') (JStr ''ServiceRequest/2'')
          (start [report_response] [''u3'', ''u4''])) = Inr [JStr ''DiagnosticReport/5'']
   \<and> map (\<lambda>req. map resource_type (batch_entries req))
         (sent (snd (createReport (JStr ''Patient/1'') (JStr ''ServiceRequest/2'')
                       (start [report_response] [''u3'', ''u4'']))))
       = [[Inr (JStr ''Observation''), Inr (JStr ''Observation''),
           Inr (JStr ''DiagnosticReport'')]]
   \<and> map (\<lambda>req. map full_url (batch_entries req))
         (sent (snd (createReport (JStr ''Patient/1'') (JStr ''ServiceRequest/2'')
                       (start [report_response] [''u3'', ''u4'']))))
       = [[JStr ''urn:uuid:u3'', JStr ''urn:uuid:u4'', JUndefined]]
   \<and> fst (createReport_idx (JStr ''Patient/1'') (JStr ''ServiceRequest/2'')
          (start [report_response_idx] [''u3'', ''u4'', ''u5'', ''u6'']))
       = Inr [JStr ''DiagnosticReport/10'']
   \<and> map (\<lambda>req. map resource_type (batch_entries req))
         (sent (snd (createReport_idx (JStr ''Patient/1'') (JStr ''ServiceRequest/2'')
                       (start [report_response_idx] [''u3'', ''u4'', ''u5'', ''u6'']))))
       = [[Inr (JStr ''Organization''), Inr (JStr ''Practitioner''), Inr (JStr ''Specimen''),
           Inr (JStr ''Observation''), Inr (JStr ''DiagnosticReport'')]]"
proof -
  let ?w1 = "start [order_response] [''u1'', ''u2'']"
  let ?w2 = "start [report_response] [''u3'', ''u4'']"
  let ?w3 = "start [report_response_idx] [''u3'', ''u4'', ''u5'', ''u6'']"
  have h1: "fst (createServiceRequest ?w1) = Inr [JStr ''Patient/1'', JStr ''ServiceRequest/2'']"
    by (simp add: createServiceRequest_cases Let_def print_and_return_result location_def
        outcome_text_def example_defs)
  have h2: "fst (createReport (JStr ''Patient/1'') (JStr ''ServiceRequest/2'') ?w2)
      = Inr [JStr ''DiagnosticReport/5'']"
    by (simp add: createReport_cases Let_def location_def example_defs)
  have h3: "fst (createReport_idx (JStr ''Patient/1'') (JStr ''ServiceRequest/2'') ?w3)
      = Inr [JStr ''DiagnosticReport/10'']"
    by (simp add: createReport_idx_cases Let_def location_def example_defs)
  have s: "sent ?w1 = []" "sent ?w2 = []" "sent ?w3 = []"
    "shd (random ?w1) = ''u1''" "shd (random ?w2) = ''u3''" "shd (stl (random ?w2)) = ''u4''"
    by (simp_all add: start_def)
  note c1 = results_read_by_request_position
      [of ?w1 "[JStr ''Patient/1'', JStr ''ServiceRequest/2'']",
       THEN conjunct1, THEN mp, OF h1]
  note c2 = results_read_by_request_position
      [of ?w2 "[JStr ''DiagnosticReport/5'']" "JStr ''Patient/1''" "JStr ''ServiceRequest/2''",
       THEN conjunct2, THEN conjunct1, THEN mp, OF h2]
  note c3 = results_read_by_request_position
      [of ?w3 "[JStr ''DiagnosticReport/10'']" "JStr ''Patient/1''" "JStr ''ServiceRequest/2''",
       THEN conjunct2, THEN conjunct2, THEN mp, OF h3]
  have d1: "map (\<lambda>req. map resource_type (batch_entries req))
         (sent (snd (createServiceRequest ?w1)))
       = [[Inr (JStr ''Patient''), Inr (JStr ''ServiceRequest'')]]"
    using c1 s by (elim exE conjE) simp
  have e1: "map (\<lambda>req. map full_url (batch_entries req))
         (sent (snd (createServiceRequest ?w1))) = [[JStr ''urn:uuid:u1'', JUndefined]]"
    using c1 s by (elim exE conjE) simp
  have d2: "map (\<lambda>req. map resource_type (batch_entries req))
         (sent (snd (createReport (JStr ''Patient/1'') (JStr ''ServiceRequest/2'') ?w2)))
       = [[Inr (JStr ''Observation''), Inr (JStr ''Observation''),
           Inr (JStr ''DiagnosticReport'')]]"
    using c2 s by (elim exE conjE) simp
  have e2: "map (\<lambda>req. map full_url (batch_entries req))
         (sent (snd (createReport (JStr ''Patient/1'') (JStr ''ServiceRequest/2'') ?w2)))
       = [[JStr ''urn:uuid:u3'', JStr ''urn:uuid:u4'', JUndefined]]"
    using c2 s by (elim exE conjE) simp
  have d3: "map (\<lambda>req. map resource_type (batch_entries req))
         (sent (snd (createReport_idx (JStr ''Patient/1'') (JStr ''ServiceRequest/2'') ?w3)))
       = [[Inr (JStr ''Organization''), Inr (JStr ''Practitioner''), Inr (JStr ''Specimen''),
           Inr (JStr ''Observation''), Inr (JStr ''DiagnosticReport'')]]"
    using c3 s by (elim exE conjE) simp
  show ?thesis
    by (intro conjI h1 h2 h3 d1 d2 d3 e1 e2)
qed

subsection \<open>C5: a failed round trip fails the whole call\<close>

text \<open>
  Claim C5. When the round trip of a batch fails, by a rejected \<^verbatim>\<open>fetch\<close> or a rejected
  \<^verbatim>\<open>response.json()\<close>, the rejection is what \<^verbatim>\<open>createServiceRequest\<close>,
  \<^verbatim>\<open>createReport\<close> and \<^verbatim>\<open>readResults\<close> throw: nothing is returned, and nothing of
  the batch's answer is printed (\<^verbatim>\<open>readResults\<close> has printed only the report it read
  before, when it is its second round trip that fails).
\<close>

theorem transport_failure_propagates:
  "(transport_error (shd (network w)) = Some e \<longrightarrow>
      fst (createServiceRequest w) = Inl e
      \<and> console (snd (createServiceRequest w)) = console w
      \<and> fst (createReport p s w) = Inl e
      \<and> console (snd (createReport p s w)) = console w
      \<and> fst (createReport_idx p s w) = Inl e
      \<and> console (snd (createReport_idx p s w)) = console w
      \<and> fst (readResults reportId w) = Inl e
      \<and> console (snd (readResults reportId w)) = console w)
   \<and> (shd (network w) = Resolves r1 \<and> parsed r1 = Some report
        \<and> read_entries report = Inr es
        \<and> transport_error (shd (stl (network w))) = Some e \<longrightarrow>
      fst (readResults reportId w) = Inl e
      \<and> console (snd (readResults reportId w)) = console w @ [Pretty report])"
  by (auto simp: transport_error_def createServiceRequest_cases createReport_cases
      createReport_idx_cases readResults_cases Let_def
      split: outcome.splits option.splits)

text \<open>A network that is down, and a batch answered with a body that does not parse.\<close>

theorem transport_failure_propagates_witness:
  "transport_error (shd (network (start [] [''u1'', ''u2'']))) = Some FetchRejected
   \<and> fst (createServiceRequest (start [] [''u1'', ''u2''])) = Inl FetchRejected
   \<and> console (snd (createServiceRequest (start [] [''u1'', ''u2'']))) = []
   \<and> fst (createReport (JStr ''Patient/1'') (JStr ''ServiceRequest/2'')
             (start [] [''u1'', ''u2''])) = Inl FetchRejected
   \<and> fst (readResults (JStr ''DiagnosticReport/Z'') (start [] [''u1'', ''u2''])) = Inl FetchRejected
   \<and> transport_error (shd (stl (network
         (start [Resolves \<lparr>ok = True, parsed = Some report_Z\<rparr>, unparseable] []))))
       = Some JsonRejected
   \<and> fst (readResults (JStr ''DiagnosticReport/Z'')
         (start [Resolves \<lparr>ok = True, parsed = Some report_Z\<rparr>, unparseable] []))
       = Inl JsonRejected
   \<and> console (snd (readResults (JStr ''DiagnosticReport/Z'')
         (start [Resolves \<lparr>ok = True, parsed = Some report_Z\<rparr>, unparseable] [])))
       = [Pretty report_Z]"
proof -
  let ?w = "start [] [''u1'', ''u2'']"
  let ?v = "start [Resolves \<lparr>ok = True, parsed = Some report_Z\<rparr>, unparseable] []"
  have h1: "transport_error (shd (network ?w)) = Some FetchRejected"
    by (simp add: transport_error_def start_def)
  have h2: "shd (network ?v) = Resolves \<lparr>ok = True, parsed = Some report_Z\<rparr>
        \<and> parsed \<lparr>ok = True, parsed = Some report_Z\<rparr> = Some report_Z
        \<and> read_entries report_Z = Inr [get_entry (JStr ''Observation/A''),
                                        get_entry (JStr ''Observation/B'')]
        \<and> transport_error (shd (stl (network ?v))) = Some JsonRejected"
    by (simp add: transport_error_def start_def unparseable_def read_entries_def report_Z_def
        read_entry_def own_def)
  note c1 = transport_failure_propagates
      [of ?w FetchRejected "JStr ''Patient/1''" "JStr ''ServiceRequest/2''"
          "JStr ''DiagnosticReport/Z''", THEN conjunct1, THEN mp, OF h1]
  note c2 = transport_failure_propagates
      [of ?v JsonRejected _ _ "JStr ''DiagnosticReport/Z''"
          "\<lparr>ok = True, parsed = Some report_Z\<rparr>" report_Z
          "[get_entry (JStr ''Observation/A''), get_entry (JStr ''Observation/B'')]", THEN conjunct2, THEN mp, OF h2]
  have k: "console ?w = []" "console ?v = []"
    by (simp_all add: start_def)
  show ?thesis
    using h1 h2 c1 c2 by (simp add: k)
qed

subsection \<open>C6: the first failure ends the run\<close>

text \<open>
  Claim C6. When \<^verbatim>\<open>authenticate\<close>, \<^verbatim>\<open>createServiceRequest\<close> or
  \<^verbatim>\<open>createReport\<close> throws, \<^verbatim>\<open>main\<close> throws the same error and leaves the world as
  that stage left it, having sent one, two or three requests: no later stage runs and
  nothing is retried. In every run the requests sent are the token request followed by an
  initial part of: batch, batch, report read, batch; the token request is not sent again.
\<close>

theorem main_stops_at_first_failure:
  "(authenticate w = (Inl e, w1) \<longrightarrow>
      main w = (Inl e, w1) \<and> length (sent w1) = length (sent w) + 1)
   \<and> (authenticate w = (Inr (), w1) \<and> createServiceRequest w1 = (Inl e, w2) \<longrightarrow>
      main w = (Inl e, w2) \<and> length (sent w2) = length (sent w) + 2)
   \<and> (authenticate w = (Inr (), w1) \<and> createServiceRequest w1 = (Inr ids, w2)
        \<and> createReport (element ids 0) (element ids 1) w2 = (Inl e, w3) \<longrightarrow>
      main w = (Inl e, w3) \<and> length (sent w3) = length (sent w) + 3)
   \<and> (\<exists>rs. sent (snd (main w)) = sent w @ token_request # rs
        \<and> token_request \<notin> set rs
        \<and> map req_method rs = take (length rs) [''POST'', ''POST'', ''GET'', ''POST''])"
proof -
  have p1: "authenticate w = (Inl e, w1) \<longrightarrow>
      main w = (Inl e, w1) \<and> length (sent w1) = length (sent w) + 1"
    using authenticate_sent [of w] by (auto simp: main_cases)
  have p2: "authenticate w = (Inr (), w1) \<and> createServiceRequest w1 = (Inl e, w2) \<longrightarrow>
      main w = (Inl e, w2) \<and> length (sent w2) = length (sent w) + 2"
    using authenticate_sent [of w] createServiceRequest_sent [of w1] by (auto simp: main_cases)
  have p3: "authenticate w = (Inr (), w1) \<and> createServiceRequest w1 = (Inr ids, w2)
        \<and> createReport (element ids 0) (element ids 1) w2 = (Inl e, w3) \<longrightarrow>
      main w = (Inl e, w3) \<and> length (sent w3) = length (sent w) + 3"
    using authenticate_sent [of w] createServiceRequest_sent [of w1]
      createReport_sent [of "element ids 0" "element ids 1" w2]
    by (auto simp: main_cases)
  obtain a v1 where a: "authenticate w = (a, v1)" by (cases "authenticate w")
  obtain b v2 where b: "createServiceRequest v1 = (b, v2)" by (cases "createServiceRequest v1")
  have s1: "sent v1 = sent w @ [token_request]"
    using authenticate_sent [of w] a by simp
  have s2: "\<exists>t c. sent v2 = sent v1 @ [batch_request t c]"
    using createServiceRequest_sent [of v1] b by auto
  have p4: "\<exists>rs. sent (snd (main w)) = sent w @ token_request # rs
        \<and> token_request \<notin> set rs
        \<and> map req_method rs = take (length rs) [''POST'', ''POST'', ''GET'', ''POST'']"
  proof (cases a)
    case (Inl x)
    then show ?thesis using a s1 by (simp add: main_cases)
  next
    case a_ok: (Inr u)
    show ?thesis
    proof (cases b)
      case (Inl x)
      then show ?thesis using a a_ok b s1 s2 by (auto simp: main_cases)
    next
      case b_ok: (Inr ids)
      obtain c v3 where c: "createReport (element ids 0) (element ids 1) v2 = (c, v3)"
        by (cases "createReport (element ids 0) (element ids 1) v2")
      have s3: "\<exists>t c. sent v3 = sent v2 @ [batch_request t c]"
        using createReport_sent [of "element ids 0" "element ids 1" v2] c by auto
      show ?thesis
      proof (cases c)
        case (Inl x)
        then show ?thesis using a a_ok b b_ok c s1 s2 s3 by (auto simp: main_cases)
      next
        case c_ok: (Inr ids')
        have m: "main w = readResults (element ids' 0) v3"
          using a a_ok b b_ok c c_ok by (simp add: main_cases)
        show ?thesis
          using readResults_sent [of "element ids' 0" v3] s1 s2 s3
          unfolding m by auto
      qed
    qed
  qed
  show ?thesis
    by (intro conjI p1 p2 p3 p4)
qed

text \<open>The network fails at the first, the second and the third request.\<close>

theorem main_stops_at_first_failure_witness:
  "fst (main (start [] [])) = Inl FetchRejected
   \<and> length (sent (snd (main (start [] [])))) = 1
   \<and> fst (main (start [granted] [''u1'', ''u2''])) = Inl FetchRejected
   \<and> length (sent (snd (main (start [granted] [''u1'', ''u2''])))) = 2
   \<and> fst (main (start [granted, order_response] [''u1'', ''u2'', ''u3'', ''u4'']))
       = Inl FetchRejected
   \<and> length (sent (snd (main (start [granted, order_response]
                                  [''u1'', ''u2'', ''u3'', ''u4''])))) = 3"
proof -
  let ?a = "start [] []"
  let ?b = "start [granted] [''u1'', ''u2'']"
  let ?c = "start [granted, order_response] [''u1'', ''u2'', ''u3'', ''u4'']"
  have a1: "authenticate ?a = (Inl FetchRejected, snd (authenticate ?a))"
    by (simp add: authenticate_cases start_def)
  have b1: "authenticate ?b = (Inr (), snd (authenticate ?b))"
    by (simp add: authenticate_cases example_defs)
  have b2: "createServiceRequest (snd (authenticate ?b))
      = (Inl FetchRejected, snd (createServiceRequest (snd (authenticate ?b))))"
    by (simp add: createServiceRequest_cases authenticate_cases Let_def example_defs)
  have c1: "authenticate ?c = (Inr (), snd (authenticate ?c))"
    by (simp add: authenticate_cases example_defs)
  have c2: "createServiceRequest (snd (authenticate ?c))
      = (Inr [JStr ''Patient/1'', JStr ''ServiceRequest/2''],
         snd (createServiceRequest (snd (authenticate ?c))))"
    by (simp add: prod_eq_iff createServiceRequest_cases authenticate_cases Let_def
        print_and_return_result location_def outcome_text_def example_defs)
  have c3: "createReport (element [JStr ''Patient/1'', JStr ''ServiceRequest/2''] 0)
        (element [JStr ''Patient/1'', JStr ''ServiceRequest/2''] 1)
        (snd (createServiceRequest (snd (authenticate ?c))))
      = (Inl FetchRejected,
         snd (createReport (element [JStr ''Patient/1'', JStr ''ServiceRequest/2''] 0)
                (element [JStr ''Patient/1'', JStr ''ServiceRequest/2''] 1)
                (snd (createServiceRequest (snd (authenticate ?c))))))"
    by (simp add: prod_eq_iff createReport_cases createServiceRequest_cases authenticate_cases
        Let_def print_and_return_frame example_defs)
  note r1 = main_stops_at_first_failure [of ?a FetchRejected "snd (authenticate ?a)",
      THEN conjunct1, THEN mp, OF a1]
  note r2 = main_stops_at_first_failure [of ?b FetchRejected "snd (authenticate ?b)"
      "snd (createServiceRequest (snd (authenticate ?b)))",
      THEN conjunct2, THEN conjunct1, THEN mp, OF conjI [OF b1 b2]]
  note r3 = main_stops_at_first_failure [of ?c FetchRejected "snd (authenticate ?c)"
      "snd (createServiceRequest (snd (authenticate ?c)))"
      "[JStr ''Patient/1'', JStr ''ServiceRequest/2'']"
      "snd (createReport (element [JStr ''Patient/1'', JStr ''ServiceRequest/2''] 0)
                (element [JStr ''Patient/1'', JStr ''ServiceRequest/2''] 1)
                (snd (createServiceRequest (snd (authenticate ?c)))))",
      THEN conjunct2, THEN conjunct2, THEN conjunct1, THEN mp, OF conjI [OF c1 conjI [OF c2 c3]]]
  have s: "sent ?a = []" "sent ?b = []" "sent ?c = []"
    by (simp_all add: start_def)
  show ?thesis
    using r1 r2 r3 by (simp add: s)
qed

subsection \<open>C8: no read of a local identifier of the same batch\<close>

text \<open>
  Claim C8. In every request a run of \<^verbatim>\<open>main\<close> sends (in the three versions of the
  program), no \<^verbatim>\<open>GET\<close> entry has for url a \<^verbatim>\<open>fullUrl\<close> of an entry of the same
  batch. The batch \<^verbatim>\<open>readResults\<close> builds from the report it has read has no
  \<^verbatim>\<open>fullUrl\<close> at all, its \<^verbatim>\<open>GET\<close> urls are the references of the report's
  \<^verbatim>\<open>result\<close>, in order, and \<^verbatim>\<open>readResults\<close> draws no UUID.
\<close>

theorem no_read_of_own_local_id:
  "(\<exists>rs. sent (snd (main w)) = sent w @ rs \<and> list_all reads_apart rs)
   \<and> (\<exists>rs. sent (snd (main_idx1 w)) = sent w @ rs \<and> list_all reads_apart rs)
   \<and> (\<exists>rs. sent (snd (main_idx2 w)) = sent w @ rs \<and> list_all reads_apart rs)
   \<and> (shd (network w) = Resolves r1 \<and> parsed r1 = Some report
        \<and> read_entries report = Inr es \<longrightarrow>
        sent (snd (readResults reportId w))
          = sent w @ [report_request (accessToken w) reportId,
                      batch_request (accessToken w) (batch_bundle es)]
        \<and> local_ids es = []
        \<and> (\<exists>rs. js_get report ''result'' = Inr (JArr rs)
                  \<and> read_targets es = map reference_of rs))
   \<and> random (snd (readResults reportId w)) = random w"
proof -
  have r: "random (snd (readResults reportId w)) = random w"
    by (simp add: readResults_cases Let_def split: outcome.splits option.splits sum.splits)
  have e: "shd (network w) = Resolves r1 \<and> parsed r1 = Some report
        \<and> read_entries report = Inr es \<longrightarrow>
        sent (snd (readResults reportId w))
          = sent w @ [report_request (accessToken w) reportId,
                      batch_request (accessToken w) (batch_bundle es)]
        \<and> local_ids es = []
        \<and> (\<exists>rs. js_get report ''result'' = Inr (JArr rs)
                  \<and> read_targets es = map reference_of rs)"
  proof (intro impI, elim conjE)
    assume a: "shd (network w) = Resolves r1" "parsed r1 = Some report"
      "read_entries report = Inr es"
    have "sent (snd (readResults reportId w))
          = sent w @ [report_request (accessToken w) reportId,
                      batch_request (accessToken w) (batch_bundle es)]"
      using a by (simp add: readResults_cases Let_def split: outcome.splits option.splits)
    moreover obtain rs where "js_get report ''result'' = Inr (JArr rs)"
      and "es = map (\<lambda>x. get_entry (reference_of x)) rs"
      using read_entries_shape [OF a(3)] by blast
    ultimately show "sent (snd (readResults reportId w))
          = sent w @ [report_request (accessToken w) reportId,
                      batch_request (accessToken w) (batch_bundle es)]
        \<and> local_ids es = []
        \<and> (\<exists>rs. js_get report ''result'' = Inr (JArr rs)
                  \<and> read_targets es = map reference_of rs)"
      by (simp add: read_batch_ids)
  qed
  show ?thesis
    using sends_main [unfolded sends_def, THEN spec, of w] r e by (intro conjI)
qed

text \<open>A complete run, and the read-back batch for the report of scenario C.\<close>

theorem no_read_of_own_local_id_witness:
  "read_entries report_Z
     = Inr [get_entry (JStr ''Observation/A''), get_entry (JStr ''Observation/B'')]
   \<and> local_ids [get_entry (JStr ''Observation/A''), get_entry (JStr ''Observation/B'')] = []
   \<and> read_targets [get_entry (JStr ''Observation/A''), get_entry (JStr ''Observation/B'')]
       = [JStr ''Observation/A'', JStr ''Observation/B'']
   \<and> list_all reads_apart (sent (snd (main full_run)))
   \<and> map req_method (sent (snd (main full_run)))
       = [''POST'', ''POST'', ''POST'', ''GET'', ''POST'']"
proof -
  let ?w = "start [Resolves \<lparr>ok = True, parsed = Some report_Z\<rparr>] []"
  let ?es = "[get_entry (JStr ''Observation/A''), get_entry (JStr ''Observation/B'')]"
  have h: "shd (network ?w) = Resolves \<lparr>ok = True, parsed = Some report_Z\<rparr>
      \<and> parsed \<lparr>ok = True, parsed = Some report_Z\<rparr> = Some report_Z
      \<and> read_entries report_Z = Inr ?es"
    by (simp add: start_def read_entries_def report_Z_def read_entry_def own_def)
  note c = no_read_of_own_local_id
      [of ?w "\<lparr>ok = True, parsed = Some report_Z\<rparr>" report_Z ?es "JStr ''DiagnosticReport/Z''",
       THEN conjunct2, THEN conjunct2, THEN conjunct2, THEN conjunct1, THEN mp, OF h]
  have t: "read_targets ?es = [JStr ''Observation/A'', JStr ''Observation/B'']"
    using c by (simp add: report_Z_def own_def reference_of_def)
  have s: "sent full_run = []"
    by (simp add: full_run_def start_def)
  have m: "list_all reads_apart (sent (snd (main full_run)))"
    using no_read_of_own_local_id [of full_run, THEN conjunct1] by (auto simp: s)
  show ?thesis
    using h c t m full_run_main by simp
qed

subsection \<open>C9: the url and the resource type of a create\<close>

text \<open>
  Claim C9 at the batches the program builds. In the \<^verbatim>\<open>createReport\<close> of src/index.js
  the first entry has the url \<^verbatim>\<open>Organizaiton\<close> for a resource of type
  \<^verbatim>\<open>Organization\<close>; in every other entry of that batch, and in every entry of the other
  batches, the url is the resource type.
\<close>

theorem organization_url_misspelt:
  "map request_url (report_entries_idx p s labUrn practitionerUrn specimenUrn observtionUrn now)
     = [Inr (JStr ''Organizaiton''), Inr (JStr ''Practitioner''), Inr (JStr ''Specimen''),
        Inr (JStr ''Observation''), Inr (JStr ''DiagnosticReport'')]
   \<and> map resource_type
         (report_entries_idx p s labUrn practitionerUrn specimenUrn observtionUrn now)
     = [Inr (JStr ''Organization''), Inr (JStr ''Practitioner''), Inr (JStr ''Specimen''),
        Inr (JStr ''Observation''), Inr (JStr ''DiagnosticReport'')]
   \<and> map request_url (report_entries p s u1 u2) = map resource_type (report_entries p s u1 u2)
   \<and> map request_url [patient_entry sys u m, serviceRequest_entry u]
       = map resource_type [patient_entry sys u m, serviceRequest_entry u]
   \<and> map request_url [patient_entry sys u m, serviceRequest_entry_idx d u]
       = map resource_type [patient_entry sys u m, serviceRequest_entry_idx d u]"
  by (simp add: report_entries_idx_def report_entries_def request_urls resource_types)

subsection \<open>C10: authentication and the token\<close>

text \<open>
  Claim C10. \<^verbatim>\<open>authenticate\<close> is atomic in the token: when the token endpoint answers
  with a response that is not \<^verbatim>\<open>ok\<close>, it throws \<^verbatim>\<open>Error('Authentication failed.')\<close>
  and \<^verbatim>\<open>accessToken\<close> keeps its value; whenever it throws, \<^verbatim>\<open>accessToken\<close> keeps its
  value; and when it returns, the response was \<^verbatim>\<open>ok\<close> and \<^verbatim>\<open>accessToken\<close> is the
  \<^verbatim>\<open>access_token\<close> field of the parsed body.
\<close>

theorem authenticate_token_atomic:
  "(shd (network w) = Resolves r \<and> \<not> ok r \<longrightarrow>
      fst (authenticate w) = Inl (Error ''Authentication failed.'') \<and>
      accessToken (snd (authenticate w)) = accessToken w)
   \<and> (\<forall>e. fst (authenticate w) = Inl e \<longrightarrow>
          accessToken (snd (authenticate w)) = accessToken w)
   \<and> (fst (authenticate w) = Inr () \<longrightarrow>
        (\<exists>r data. shd (network w) = Resolves r \<and> ok r \<and> parsed r = Some data \<and>
           js_get data ''access_token'' = Inr (accessToken (snd (authenticate w)))))"
  by (auto simp: authenticate_cases Let_def split: outcome.splits option.splits sum.splits)

text \<open>
  On a first run the token is \<^verbatim>\<open>null\<close>: it stays \<^verbatim>\<open>null\<close> after a refused
  authentication and is the body's \<^verbatim>\<open>access_token\<close> after an accepted one.
\<close>

theorem authenticate_token_atomic_witness:
  "fst (authenticate (start [Resolves \<lparr>ok = False,
          parsed = Some (JObj [(''error'', JStr ''invalid_client'')])\<rparr>] []))
     = Inl (Error ''Authentication failed.'')
   \<and> accessToken (snd (authenticate (start [Resolves \<lparr>ok = False,
          parsed = Some (JObj [(''error'', JStr ''invalid_client'')])\<rparr>] []))) = JNull
   \<and> fst (authenticate (start [Resolves \<lparr>ok = True,
          parsed = Some (JObj [(''access_token'', JStr ''t0k3n'')])\<rparr>] [])) = Inr ()
   \<and> accessToken (snd (authenticate (start [Resolves \<lparr>ok = True,
          parsed = Some (JObj [(''access_token'', JStr ''t0k3n'')])\<rparr>] []))) = JStr ''t0k3n''"
  using authenticate_token_atomic
          [of "start [Resolves \<lparr>ok = False,
                 parsed = Some (JObj [(''error'', JStr ''invalid_client'')])\<rparr>] []"
              "\<lparr>ok = False, parsed = Some (JObj [(''error'', JStr ''invalid_client'')])\<rparr>"]
        authenticate_token_atomic
          [of "start [Resolves \<lparr>ok = True,
                 parsed = Some (JObj [(''access_token'', JStr ''t0k3n'')])\<rparr>] []"]
  by (simp add: authenticate_cases start_def own_def)

end
